theory Spec2Isabelle
  imports Main
begin

section \<open>Data model of \<open>src/server.js\<close>\<close>

text \<open>
  The server keeps two module-level maps, \<open>sessions\<close> and \<open>wsClients\<close>, and talks to two
  kinds of library objects: transport sockets made by \<open>makeWASocket\<close> and push channels
  handed out by the WebSocket server. Objects are identified by the order of their
  creation (a natural number); a JavaScript string is the list of the bytes of its UTF-8
  form; a value of the transport that may be \<open>undefined\<close> is an \<open>option\<close>. A field of a
  request body is any JSON value, or absent. \<open>console.log\<close> output is not modelled: the
  template literals in its arguments convert strings, a boolean, and the session id of a
  socket's listener, which line 41 has converted before the listener exists.
\<close>

type_synonym handle = nat
type_synonym chan = nat

text \<open>What \<open>express.json()\<close> puts into \<open>req.body\<close>: the values \<open>JSON.parse\<close> makes, and
  \<open>undefined\<close> for a field that is absent. A number is given by its string form
  \<open>String(n)\<close>, which determines it (zero is \<open>0\<close>). An array or an object carries the
  identity of the object as its first argument: as the key of a \<open>Map\<close> two of them are the
  same only if they are the same object, and every parsed body is made of new objects.
  The body itself is taken to be an object, the empty one for a request that carries no
  JSON, so that the handlers can read its fields.\<close>

datatype json =
    JUndefined
  | JNull
  | JBool bool
  | JNum string
  | JStr string
  | JArr nat "json list"
  | JObj nat "(string \<times> json) list"

text \<open>JavaScript truthiness, as \<open>!x\<close> tests it.\<close>

fun truthy_json :: "json \<Rightarrow> bool" where
  "truthy_json JUndefined = False"
| "truthy_json JNull = False"
| "truthy_json (JBool b) = b"
| "truthy_json (JNum n) = (n \<noteq> ''0'')"
| "truthy_json (JStr t) = (t \<noteq> [])"
| "truthy_json (JArr a xs) = True"
| "truthy_json (JObj a kvs) = True"

text \<open>\<open>Array.prototype.join\<close> with a comma, over the string forms of the elements; it
  throws when one of them throws.\<close>

fun join_comma :: "string option list \<Rightarrow> string option" where
  "join_comma [] = Some []"
| "join_comma [x] = x"
| "join_comma (x # y # rest) =
     (case x of
        None \<Rightarrow> None
      | Some t \<Rightarrow> (case join_comma (y # rest) of None \<Rightarrow> None | Some u \<Rightarrow> Some (t @ '','' @ u)))"

text \<open>The string a template literal \<open>`${x}`\<close> puts in for \<open>x\<close>, or \<open>None\<close> where the
  conversion throws a \<open>TypeError\<close>. An array is joined, with nothing for an element that
  is \<open>null\<close> or \<open>undefined\<close>. A parsed object inherits \<open>toString\<close> and is \<open>[object Object]\<close>,
  unless it has a key \<open>toString\<close> of its own: that value is no function, and neither it
  nor \<open>valueOf\<close> gives a primitive.\<close>

fun js_toString :: "json \<Rightarrow> string option" where
  "js_toString JUndefined = Some ''undefined''"
| "js_toString JNull = Some ''null''"
| "js_toString (JBool b) = Some (if b then ''true'' else ''false'')"
| "js_toString (JNum n) = Some n"
| "js_toString (JStr t) = Some t"
| "js_toString (JArr a xs) =
     join_comma (map (\<lambda>x. if x = JUndefined \<or> x = JNull then Some [] else js_toString x) xs)"
| "js_toString (JObj a kvs) =
     (if ''toString'' \<in> fst ` set kvs then None else Some ''[object Object]'')"

text \<open>The value stored under a session id: \<open>{ sock, phoneNumber, status }\<close>. The object
  written by the \<open>open\<close> branch is a spread of the previous value, so its \<open>sock\<close> and
  \<open>phoneNumber\<close> are missing when there was no previous value.\<close>

record session =
  sock :: "handle option"
  phoneNumber :: "string option"
  status :: string

text \<open>The payloads given to \<open>broadcast\<close> and to \<open>ws.send\<close>: \<open>{type:'qr', data}\<close>,
  \<open>{type:'connection', status}\<close> and \<open>{type:'message', data:{from, text, timestamp}}\<close>.
  \<open>JSON.stringify\<close> is injective on them, and the outbox of a channel keeps the payload
  itself.\<close>

datatype event =
    Qr string
  | Connection string
  | Message string string nat

datatype ready_state = CONNECTING | OPEN | CLOSING | CLOSED

text \<open>What the closures registered on a socket captured: the arguments of the
  \<open>createSession\<close> call that made it. \<open>ended\<close> is the transport's side of the handle: it is
  set once the socket has reported \<open>close\<close> or \<open>logout\<close> was called on it.\<close>

record sock_closure =
  sessionIdOf :: json
  phoneNumberOf :: string
  ended :: bool

text \<open>A pending \<open>setTimeout(() => createSession(sessionId, phoneNumber), 5000)\<close>.\<close>

record timer =
  delay :: nat
  timerSessionId :: json
  timerPhoneNumber :: string

text \<open>Calls into the transport library and the timed wait of the pairing handler, in the
  order they are made.\<close>

datatype effect =
    MakeSocket handle json
  | SendMessage handle json json
  | RequestPairingCode handle string
  | Logout handle
  | Sleep nat

record server =
  sessions :: "json \<rightharpoonup> session"
  wsClients :: "json \<rightharpoonup> chan list"
  readyState :: "chan \<Rightarrow> ready_state"
  outbox :: "chan \<Rightarrow> event list"
  wsSessionId :: "chan \<rightharpoonup> json"
  nextWs :: chan
  socks :: "handle \<rightharpoonup> sock_closure"
  nextSock :: handle
  timers :: "timer list"
  trace :: "effect list"

definition init :: server where
  "init = \<lparr> sessions = Map.empty, wsClients = Map.empty,
            readyState = (\<lambda>_. CLOSED), outbox = (\<lambda>_. []),
            wsSessionId = Map.empty, nextWs = 0,
            socks = Map.empty, nextSock = 0, timers = [], trace = [] \<rparr>"

subsection \<open>Code that may throw\<close>

text \<open>A piece of code takes the server state and returns the state it leaves behind
  together with its value, or with the message of the error it threw. An exception does
  not undo the writes made before it.\<close>

type_synonym 'a prog = "server \<Rightarrow> (string + 'a) \<times> server"

definition ret :: "'a \<Rightarrow> 'a prog" where
  "ret x = (\<lambda>s. (Inr x, s))"

definition throw :: "string \<Rightarrow> 'a prog" where
  "throw e = (\<lambda>s. (Inl e, s))"

definition bind :: "'a prog \<Rightarrow> ('a \<Rightarrow> 'b prog) \<Rightarrow> 'b prog" where
  "bind m f = (\<lambda>s. case m s of (Inl e, s') \<Rightarrow> (Inl e, s') | (Inr x, s') \<Rightarrow> f x s')"

definition modify :: "(server \<Rightarrow> server) \<Rightarrow> unit prog" where
  "modify f = (\<lambda>s. (Inr (), f s))"

definition gets :: "(server \<Rightarrow> 'a) \<Rightarrow> 'a prog" where
  "gets g = (\<lambda>s. (Inr (g s), s))"

text \<open>JavaScript truthiness of a string of the transport or of a URL that may be
  \<open>undefined\<close> or \<open>null\<close>.\<close>

fun truthy :: "string option \<Rightarrow> bool" where
  "truthy None = False"
| "truthy (Some t) = (t \<noteq> [])"

section \<open>The broadcaster\<close>

text \<open>\<open>ws.send\<close> of the WebSocket library accepts data on an open channel only.\<close>

definition ws_send :: "chan \<Rightarrow> event \<Rightarrow> unit prog" where
  "ws_send ws payload = (\<lambda>s.
     if readyState s ws = OPEN
     then (Inr (), s\<lparr>outbox := (outbox s)(ws := outbox s ws @ [payload])\<rparr>)
     else (Inl ''WebSocket is not open'', s))"

text \<open>\<open>wsClients.get(sessionId) || []\<close>\<close>

definition clients_of :: "server \<Rightarrow> json \<Rightarrow> chan list" where
  "clients_of s sessionId = (case wsClients s sessionId of None \<Rightarrow> [] | Some cs \<Rightarrow> cs)"

text \<open>\<open>clients.forEach(ws => { if (ws.readyState === WebSocket.OPEN) ws.send(...) })\<close>\<close>

fun forEach_client :: "chan list \<Rightarrow> event \<Rightarrow> unit prog" where
  "forEach_client [] data = ret ()"
| "forEach_client (ws # rest) data =
     bind (\<lambda>s. if readyState s ws = OPEN then ws_send ws data s else ret () s)
          (\<lambda>_. forEach_client rest data)"

definition broadcast :: "json \<Rightarrow> event \<Rightarrow> unit prog" where
  "broadcast sessionId data = (\<lambda>s. forEach_client (clients_of s sessionId) data s)"


section \<open>Sessions and the transport\<close>

text \<open>\<open>sock.sendMessage(jid, { text })\<close>, \<open>sock.requestPairingCode(phone)\<close>: the call is
  recorded; whether the awaited promise rejects, and with which message, is decided by
  the transport and is an input of the model.\<close>

definition sendMessage :: "handle \<Rightarrow> json \<Rightarrow> json \<Rightarrow> string option \<Rightarrow> unit prog" where
  "sendMessage h jid txt outcome = (\<lambda>s.
     let s' = s\<lparr>trace := trace s @ [SendMessage h jid txt]\<rparr>
     in case outcome of Some e \<Rightarrow> (Inl e, s') | None \<Rightarrow> (Inr (), s'))"

definition requestPairingCode :: "handle \<Rightarrow> string \<Rightarrow> string + string \<Rightarrow> string prog" where
  "requestPairingCode h phone outcome = (\<lambda>s.
     (outcome, s\<lparr>trace := trace s @ [RequestPairingCode h phone]\<rparr>))"

text \<open>The message of a \<open>TypeError\<close>; its wording is the engine's.\<close>

definition TypeError :: string where
  "TypeError = ''TypeError''"

text \<open>What the transport library answers to the calls at the head of \<open>createSession\<close>:
  nothing is thrown; \<open>fetchLatestBaileysVersion\<close> throws (line 40); or
  \<open>useMultiFileAuthState\<close> or \<open>makeWASocket\<close> throws (lines 41 to 50).\<close>

datatype startup = Ready | VersionError string | StoreError string

text \<open>\<open>createSession\<close>, lines 39 to 52. The argument of \<open>useMultiFileAuthState\<close> is the
  template literal \<open>`sessions/${sessionId}`\<close>, which throws for a session id that has no
  string form; it is evaluated after the version has been fetched and before the
  storage is opened. All of this comes before \<open>sessions.set\<close>. The three \<open>sock.ev.on\<close>
  registrations are the closure stored for the new handle.\<close>

definition createSession :: "json \<Rightarrow> string \<Rightarrow> startup \<Rightarrow> handle prog" where
  "createSession sessionId phoneNumber' setupErr = (\<lambda>s.
     case setupErr of
       VersionError e \<Rightarrow> (Inl e, s)
     | _ \<Rightarrow>
         (case js_toString sessionId of
            None \<Rightarrow> (Inl TypeError, s)
          | Some path \<Rightarrow>
              (case setupErr of
                 StoreError e \<Rightarrow> (Inl e, s)
               | _ \<Rightarrow>
                   let h = nextSock s in
                   (Inr h,
                    s\<lparr>socks := (socks s)(h \<mapsto>
                          \<lparr>sessionIdOf = sessionId, phoneNumberOf = phoneNumber',
                           ended = False\<rparr>),
                      nextSock := Suc h,
                      trace := trace s @ [MakeSocket h sessionId],
                      sessions := (sessions s)(sessionId \<mapsto>
                          \<lparr>sock = Some h, phoneNumber = Some phoneNumber',
                           status = ''connecting''\<rparr>)\<rparr>))))"

text \<open>The argument of the \<open>connection.update\<close> listener: \<open>connection\<close>, the value of
  \<open>lastDisconnect?.error?.output?.statusCode\<close>, and \<open>qr\<close>.\<close>

record update =
  connection :: "string option"
  statusCode :: "int option"
  qr :: "string option"

text \<open>\<open>DisconnectReason.loggedOut\<close> of the transport library.\<close>

definition loggedOut :: int where
  "loggedOut = 401"

text \<open>\<open>{ ...sessions.get(sessionId), status: 'connected' }\<close>\<close>

definition spread_connected :: "session option \<Rightarrow> session" where
  "spread_connected old =
     (case old of
        None \<Rightarrow> \<lparr>sock = None, phoneNumber = None, status = ''connected''\<rparr>
      | Some v \<Rightarrow> v\<lparr>status := ''connected''\<rparr>)"

text \<open>The \<open>connection.update\<close> listener, lines 54 to 78.\<close>

definition connection_update :: "json \<Rightarrow> string \<Rightarrow> update \<Rightarrow> unit prog" where
  "connection_update sessionId phoneNumber' u =
     bind (case qr u of
             None \<Rightarrow> ret ()
           | Some q \<Rightarrow> if q \<noteq> [] then broadcast sessionId (Qr q) else ret ()) (\<lambda>_.
     bind (if connection u = Some ''open''
           then bind (modify (\<lambda>s. s\<lparr>sessions := (sessions s)(sessionId \<mapsto>
                                       spread_connected (sessions s sessionId))\<rparr>))
                     (\<lambda>_. broadcast sessionId (Connection ''connected''))
           else ret ()) (\<lambda>_.
     if connection u = Some ''close''
     then (if statusCode u \<noteq> Some loggedOut
           then modify (\<lambda>s. s\<lparr>timers := timers s @
                   [\<lparr>delay = 5000, timerSessionId = sessionId,
                     timerPhoneNumber = phoneNumber'\<rparr>]\<rparr>)
           else bind (modify (\<lambda>s. s\<lparr>sessions := (sessions s)(sessionId := None)\<rparr>))
                     (\<lambda>_. broadcast sessionId (Connection ''logged_out'')))
     else ret ()))"

text \<open>One element of \<open>messages\<close>: \<open>msg.key.fromMe\<close>, \<open>msg.key.remoteJid\<close>,
  \<open>msg.message?.conversation\<close>, \<open>msg.message?.extendedTextMessage?.text\<close>, with what the
  environment answers if the loop reaches it: the reading of \<open>Date.now()\<close> and the error
  of the awaited \<open>sock.sendMessage\<close>, if it rejects.\<close>

record inbound =
  fromMe :: bool
  remoteJid :: string
  conversation :: "string option"
  extendedText :: "string option"
  now :: nat
  sendError :: "string option"

text \<open>\<open>a || d\<close> for a string-or-undefined \<open>a\<close>.\<close>

fun or_else :: "string option \<Rightarrow> string \<Rightarrow> string" where
  "or_else None d = d"
| "or_else (Some t) d = (if t \<noteq> [] then t else d)"

definition text_of :: "inbound \<Rightarrow> string" where
  "text_of msg = or_else (conversation msg) (or_else (extendedText msg) [])"

definition startsWith_slash :: "string \<Rightarrow> bool" where
  "startsWith_slash t = (case t of [] \<Rightarrow> False | c # _ \<Rightarrow> c = CHR ''/'')"

text \<open>\<open>text.slice(1).split(' ')[0].toLowerCase()\<close>. The built-in
  \<open>String.prototype.toLowerCase\<close> is not part of the sources; it is the argument
  \<open>toLowerCase\<close> of the listener and of everything it calls. The text begins with \<open>/\<close>
  where this is used, so \<open>slice(1)\<close> takes off one byte.\<close>

definition command_of :: "(string \<Rightarrow> string) \<Rightarrow> string \<Rightarrow> string" where
  "command_of toLowerCase t = toLowerCase (takeWhile (\<lambda>c. c \<noteq> CHR '' '') (drop 1 t))"

text \<open>The body of \<open>for (const msg of messages)\<close>, lines 85 to 111. A rejected \<open>await\<close>
  leaves the loop and the listener. The listener is run to its end in one step: what
  other listeners do while it is suspended at the \<open>await\<close> is not interleaved.\<close>

fun for_messages ::
    "(string \<Rightarrow> string) \<Rightarrow> handle \<Rightarrow> json \<Rightarrow> inbound list \<Rightarrow> unit prog" where
  "for_messages toLowerCase h sessionId [] = ret ()"
| "for_messages toLowerCase h sessionId (msg # rest) =
     (if fromMe msg then for_messages toLowerCase h sessionId rest
      else if text_of msg = [] then for_messages toLowerCase h sessionId rest
      else
        bind (broadcast sessionId (Message (remoteJid msg) (text_of msg) (now msg))) (\<lambda>_.
        bind (if startsWith_slash (text_of msg)
              then sendMessage h (JStr (remoteJid msg))
                     (JStr (''Command received: /'' @ command_of toLowerCase (text_of msg)))
                     (sendError msg)
              else ret ()) (\<lambda>_.
        for_messages toLowerCase h sessionId rest)))"

text \<open>The \<open>messages.upsert\<close> listener, lines 82 to 112.\<close>

definition messages_upsert ::
    "(string \<Rightarrow> string) \<Rightarrow> handle \<Rightarrow> json \<Rightarrow> inbound list \<Rightarrow> string \<Rightarrow> unit prog" where
  "messages_upsert toLowerCase h sessionId messages type =
     (if type \<noteq> ''notify'' then ret ()
      else for_messages toLowerCase h sessionId messages)"


section \<open>HTTP handlers\<close>

text \<open>A response is the status code with the JSON body.\<close>

datatype body =
    Error string
  | PairCode string string
  | Status string
  | Success

type_synonym response = "nat \<times> body"

text \<open>\<open>try { ... } catch (error) { res.status(500).json({ error: error.message }) }\<close>\<close>

definition catch500 :: "response prog \<Rightarrow> server \<Rightarrow> response \<times> server" where
  "catch500 m s =
     (case m s of (Inl e, s') \<Rightarrow> ((500, Error e), s') | (Inr r, s') \<Rightarrow> (r, s'))"

record pair_body =
  pairSessionId :: json
  pairPhoneNumber :: json

definition isDigit :: "char \<Rightarrow> bool" where
  "isDigit c = (c \<in> set ''0123456789'')"

text \<open>\<open>POST /api/pair\<close>, lines 118 to 147. \<open>setupErr\<close> and \<open>pairing\<close> are the transport's
  answers to \<open>createSession\<close> and to \<open>requestPairingCode\<close>. Only a string has the method
  \<open>replace\<close>: for any other truthy \<open>phoneNumber\<close> the call at line 127 throws a
  \<open>TypeError\<close>. The handler is run to its end in one step; the entry it reads before the
  wait is the one it uses after it.\<close>

definition api_pair ::
    "pair_body \<Rightarrow> startup \<Rightarrow> string + string \<Rightarrow> server \<Rightarrow> response \<times> server" where
  "api_pair req setupErr pairing =
     catch500
       (if \<not> truthy_json (pairSessionId req) \<or> \<not> truthy_json (pairPhoneNumber req)
        then ret (400, Error ''sessionId and phoneNumber required'')
        else
          case pairPhoneNumber req of
            JStr phoneNumber' \<Rightarrow>
              (let sessionId = pairSessionId req;
                   cleanPhone = filter isDigit phoneNumber' in
               bind (createSession sessionId cleanPhone setupErr) (\<lambda>_.
               bind (gets (\<lambda>s. sessions s sessionId)) (\<lambda>session.
               bind (modify (\<lambda>s. s\<lparr>trace := trace s @ [Sleep 2000]\<rparr>)) (\<lambda>_.
               bind (case session of
                       None \<Rightarrow> throw TypeError
                     | Some v \<Rightarrow>
                         (case sock v of
                            None \<Rightarrow> throw TypeError
                          | Some h \<Rightarrow> requestPairingCode h cleanPhone pairing)) (\<lambda>code.
               ret (200, PairCode code
                      ''Enter this code in WhatsApp > Linked Devices > Link a Device''))))))
          | _ \<Rightarrow> throw TypeError)"

text \<open>\<open>GET /api/status/:sessionId\<close>, lines 150 to 159.\<close>

definition api_status :: "string \<Rightarrow> server \<Rightarrow> response" where
  "api_status sessionId s =
     (case sessions s (JStr sessionId) of
        None \<Rightarrow> (200, Status ''not_found'')
      | Some v \<Rightarrow> (200, Status (status v)))"

record send_body =
  sendSessionId :: json
  sendTo :: json
  sendText :: json

text \<open>\<open>to.includes('@') ? to : `${to}@s.whatsapp.net`\<close> for a string \<open>to\<close>.\<close>

definition jid_of :: "string \<Rightarrow> string" where
  "jid_of t = (if CHR ''@'' \<in> set t then t else t @ ''@s.whatsapp.net'')"

text \<open>The same expression for any \<open>to\<close>, with the message of the error it throws on the
  left. A string and an array have a method \<open>includes\<close>; the array's asks whether \<open>'@'\<close> is
  one of its elements, and the recipient is then the array itself, else the template
  literal with the array's string form. Reading \<open>includes\<close> of \<open>undefined\<close> or \<open>null\<close>
  throws, and a boolean, a number or a parsed object has no function of that name.\<close>

fun recipient :: "json \<Rightarrow> string + json" where
  "recipient (JStr t) = Inr (JStr (jid_of t))"
| "recipient (JArr a xs) =
     (if JStr ''@'' \<in> set xs then Inr (JArr a xs)
      else case js_toString (JArr a xs) of
             None \<Rightarrow> Inl TypeError
           | Some t \<Rightarrow> Inr (JStr (t @ ''@s.whatsapp.net'')))"
| "recipient v = Inl TypeError"

text \<open>\<open>POST /api/send\<close>, lines 162 to 178. \<open>outcome\<close> is the error of the awaited
  \<open>sendMessage\<close>, if it rejects. The recipient is computed before \<open>session.sock\<close> is read.\<close>

definition api_send :: "send_body \<Rightarrow> string option \<Rightarrow> server \<Rightarrow> response \<times> server" where
  "api_send req outcome =
     catch500
       (bind (gets (\<lambda>s. sessions s (sendSessionId req))) (\<lambda>session.
        case session of
          None \<Rightarrow> ret (400, Error ''Session not connected'')
        | Some v \<Rightarrow>
            if status v \<noteq> ''connected'' then ret (400, Error ''Session not connected'')
            else
              (case recipient (sendTo req) of
                 Inl e \<Rightarrow> throw e
               | Inr jid \<Rightarrow>
                   (case sock v of
                      None \<Rightarrow> throw TypeError
                    | Some h \<Rightarrow>
                        bind (sendMessage h jid (sendText req) outcome) (\<lambda>_.
                        ret (200, Success))))))"

text \<open>\<open>POST /api/disconnect/:sessionId\<close>, lines 181 to 191. There is no \<open>try\<close>: when
  \<open>session.sock.logout()\<close> throws or rejects, the handler sends no response. A logout
  that succeeds ends the handle.\<close>

definition api_disconnect ::
    "string \<Rightarrow> string option \<Rightarrow> server \<Rightarrow> response option \<times> server" where
  "api_disconnect sessionId outcome s =
     (case sessions s (JStr sessionId) of
        None \<Rightarrow> (Some (200, Success), s)
      | Some v \<Rightarrow>
          (case sock v of
             None \<Rightarrow> (None, s)
           | Some h \<Rightarrow>
               (let s1 = s\<lparr>trace := trace s @ [Logout h]\<rparr> in
                case outcome of
                  Some e \<Rightarrow> (None, s1)
                | None \<Rightarrow>
                    (Some (200, Success),
                     s1\<lparr>socks := (case socks s1 h of
                                    None \<Rightarrow> socks s1
                                  | Some c \<Rightarrow> (socks s1)(h \<mapsto> c\<lparr>ended := True\<rparr>)),
                        sessions := (sessions s1)(JStr sessionId := None)\<rparr>))))"

section \<open>Push channels\<close>

text \<open>The \<open>connection\<close> handler of the WebSocket server, lines 203 to 223. The argument
  is \<open>url.searchParams.get('sessionId')\<close>. The new channel is open; \<open>ws.close(1008, ...)\<close>
  starts its closing handshake.\<close>

definition ws_connection :: "string option \<Rightarrow> unit prog" where
  "ws_connection sessionId = (\<lambda>s.
     let ws = nextWs s;
         s0 = s\<lparr>nextWs := Suc ws,
                readyState := (readyState s)(ws := OPEN),
                outbox := (outbox s)(ws := [])\<rparr>
     in if \<not> truthy sessionId
        then (Inr (), s0\<lparr>readyState := (readyState s0)(ws := CLOSING)\<rparr>)
        else
          case sessionId of
            None \<Rightarrow> (Inr (), s0)
          | Some i \<Rightarrow>
              (let s1 = s0\<lparr>wsSessionId := (wsSessionId s0)(ws \<mapsto> JStr i),
                            wsClients := (wsClients s0)(JStr i \<mapsto>
                                           clients_of s0 (JStr i) @ [ws])\<rparr>
               in case sessions s1 (JStr i) of
                    None \<Rightarrow> (Inr (), s1)
                  | Some v \<Rightarrow> ws_send ws (Connection (status v)) s1))"

text \<open>The \<open>close\<close> listener of a channel, lines 225 to 229; the library has set the
  channel's state to \<open>CLOSED\<close> before it calls the listener. A channel that was refused
  has no listener.\<close>

definition ws_close :: "chan \<Rightarrow> server \<Rightarrow> server" where
  "ws_close ws s =
     (let s0 = s\<lparr>readyState := (readyState s)(ws := CLOSED)\<rparr> in
      case wsSessionId s ws of
        None \<Rightarrow> s0
      | Some sessionId \<Rightarrow>
          s0\<lparr>wsClients := (wsClients s0)(sessionId \<mapsto>
                 filter (\<lambda>c. c \<noteq> ws) (clients_of s0 sessionId))\<rparr>)"

section \<open>The event loop\<close>

text \<open>Everything that can happen to the server: a request, a channel event, an event
  of a transport socket, a timer that fires. Each is handled to its end before the next.
  An error that leaves a listener is dropped here; the state it left behind stays. The
  status and health requests only read the registry, and \<open>creds.update\<close> goes to the
  transport's own \<open>saveCreds\<close>: the three change nothing of the server state.\<close>

datatype input =
    ApiPair pair_body startup "string + string"
  | ApiStatus string
  | ApiSend send_body "string option"
  | ApiDisconnect string "string option"
  | ApiHealth
  | WsConnection "string option"
  | WsClosing chan
  | WsClose chan
  | ConnectionUpdate handle update
  | CredsUpdate handle
  | MessagesUpsert "string \<Rightarrow> string" handle "inbound list" string
  | TimerFire nat startup

text \<open>A socket event runs the listeners of that socket, with the arguments its
  \<open>createSession\<close> call captured. A \<open>close\<close> report ends the handle. A message event
  comes with the built-in \<open>toLowerCase\<close> its listener calls.\<close>

definition on_connection_update :: "handle \<Rightarrow> update \<Rightarrow> server \<Rightarrow> server" where
  "on_connection_update h u s =
     (case socks s h of
        None \<Rightarrow> s
      | Some c \<Rightarrow>
          snd (connection_update (sessionIdOf c) (phoneNumberOf c) u
                 (if connection u = Some ''close''
                  then s\<lparr>socks := (socks s)(h \<mapsto> c\<lparr>ended := True\<rparr>)\<rparr>
                  else s)))"

definition on_messages_upsert ::
    "(string \<Rightarrow> string) \<Rightarrow> handle \<Rightarrow> inbound list \<Rightarrow> string \<Rightarrow> server \<Rightarrow> server" where
  "on_messages_upsert toLowerCase h messages type s =
     (case socks s h of
        None \<Rightarrow> s
      | Some c \<Rightarrow> snd (messages_upsert toLowerCase h (sessionIdOf c) messages type s))"

text \<open>The callback of the \<open>i\<close>-th pending timer: \<open>() => createSession(sessionId,
  phoneNumber)\<close>.\<close>

definition timer_fire :: "nat \<Rightarrow> startup \<Rightarrow> server \<Rightarrow> server" where
  "timer_fire i setupErr s =
     (if i < length (timers s)
      then snd (createSession (timerSessionId (timers s ! i)) (timerPhoneNumber (timers s ! i))
                  setupErr (s\<lparr>timers := take i (timers s) @ drop (Suc i) (timers s)\<rparr>))
      else s)"

fun step :: "input \<Rightarrow> server \<Rightarrow> server" where
  "step (ApiPair req setupErr pairing) s = snd (api_pair req setupErr pairing s)"
| "step (ApiStatus sessionId) s = s"
| "step (ApiSend req outcome) s = snd (api_send req outcome s)"
| "step (ApiDisconnect sessionId outcome) s = snd (api_disconnect sessionId outcome s)"
| "step ApiHealth s = s"
| "step (WsConnection sessionId) s = snd (ws_connection sessionId s)"
| "step (WsClosing ws) s =
     (if readyState s ws = OPEN then s\<lparr>readyState := (readyState s)(ws := CLOSING)\<rparr> else s)"
| "step (WsClose ws) s = ws_close ws s"
| "step (ConnectionUpdate h u) s = on_connection_update h u s"
| "step (CredsUpdate h) s = s"
| "step (MessagesUpsert toLowerCase h messages type) s =
     on_messages_upsert toLowerCase h messages type s"
| "step (TimerFire i setupErr) s = timer_fire i setupErr s"

definition run :: "input list \<Rightarrow> server \<Rightarrow> server" where
  "run inputs s = foldl (\<lambda>s i. step i s) s inputs"

text \<open>A handle is live from \<open>makeWASocket\<close> until it has ended.\<close>

definition live :: "server \<Rightarrow> handle \<Rightarrow> bool" where
  "live s h = (case socks s h of None \<Rightarrow> False | Some c \<Rightarrow> \<not> ended c)"

text \<open>The session id a handle's listeners act on.\<close>

definition bound_to :: "server \<Rightarrow> handle \<Rightarrow> json \<Rightarrow> bool" where
  "bound_to s h sessionId = (case socks s h of None \<Rightarrow> False | Some c \<Rightarrow> sessionIdOf c = sessionId)"

section \<open>Observations\<close>

text \<open>The number of copies of one broadcast to \<open>sessionId\<close> that channel \<open>c\<close> is handed:
  one for each place it has in the subscriber list, if it is open.\<close>

definition deliveries :: "server \<Rightarrow> json \<Rightarrow> chan \<Rightarrow> nat" where
  "deliveries s sessionId c =
     (if readyState s c = OPEN then count_list (clients_of s sessionId) c else 0)"

text \<open>What channel \<open>c\<close> is handed when \<open>evs\<close> are broadcast to \<open>sessionId\<close>, one after
  the other.\<close>

definition fanout :: "server \<Rightarrow> json \<Rightarrow> event list \<Rightarrow> chan \<Rightarrow> event list" where
  "fanout s sessionId evs c = concat (map (replicate (deliveries s sessionId c)) evs)"

text \<open>A message the loop does not skip: not from the own account, with a text.\<close>

definition eligible :: "inbound \<Rightarrow> bool" where
  "eligible msg = (\<not> fromMe msg \<and> text_of msg \<noteq> [])"

definition is_command :: "inbound \<Rightarrow> bool" where
  "is_command msg = (eligible msg \<and> startsWith_slash (text_of msg))"

definition event_of :: "inbound \<Rightarrow> event" where
  "event_of msg = Message (remoteJid msg) (text_of msg) (now msg)"

definition ack_of :: "(string \<Rightarrow> string) \<Rightarrow> handle \<Rightarrow> inbound \<Rightarrow> effect" where
  "ack_of toLowerCase h msg =
     SendMessage h (JStr (remoteJid msg))
       (JStr (''Command received: /'' @ command_of toLowerCase (text_of msg)))"

text \<open>The acknowledgement of the message, if it has one, is sent without an error.\<close>

definition ack_ok :: "inbound \<Rightarrow> bool" where
  "ack_ok msg = (is_command msg \<longrightarrow> sendError msg = None)"

text \<open>The messages of a batch that the loop gets to, and what the loop ends with.\<close>

fun reached :: "inbound list \<Rightarrow> inbound list" where
  "reached [] = []"
| "reached (msg # rest) = (if ack_ok msg then msg # reached rest else [msg])"

fun loop_result :: "inbound list \<Rightarrow> string + unit" where
  "loop_result [] = Inr ()"
| "loop_result (msg # rest) =
     (if is_command msg
      then (case sendError msg of Some e \<Rightarrow> Inl e | None \<Rightarrow> loop_result rest)
      else loop_result rest)"

text \<open>Every subscriber list holds channels that exist, each once.\<close>

definition channels_wf :: "server \<Rightarrow> bool" where
  "channels_wf s =
     (\<forall>sessionId. distinct (clients_of s sessionId) \<and>
                  (\<forall>c \<in> set (clients_of s sessionId). c < nextWs s))"

text \<open>The \<open>qr\<close> event a \<open>connection.update\<close> forwards, if any.\<close>

definition qr_events :: "update \<Rightarrow> event list" where
  "qr_events u = (case qr u of None \<Rightarrow> [] | Some q \<Rightarrow> if q \<noteq> [] then [Qr q] else [])"

text \<open>Every handle that exists was numbered below the next one.\<close>

definition socks_wf :: "server \<Rightarrow> bool" where
  "socks_wf s = (\<forall>h. socks s h \<noteq> None \<longrightarrow> h < nextSock s)"

text \<open>Every handle and every pending timer belongs to a session id that has a string
  form.\<close>

definition ids_wf :: "server \<Rightarrow> bool" where
  "ids_wf s =
     ((\<forall>h c. socks s h = Some c \<longrightarrow> js_toString (sessionIdOf c) \<noteq> None) \<and>
      (\<forall>t \<in> set (timers s). js_toString (timerSessionId t) \<noteq> None))"

text \<open>The spec's words for the command name, to compare with \<open>command_of\<close>: the first
  whitespace-delimited token after the sigil.\<close>

definition is_whitespace :: "char \<Rightarrow> bool" where
  "is_whitespace c = (c \<in> set [CHR '' '', CHR 0x09, CHR 0x0A, CHR 0x0B, CHR 0x0C, CHR 0x0D])"

definition spec_first_token :: "string \<Rightarrow> string" where
  "spec_first_token t = takeWhile (\<lambda>c. \<not> is_whitespace c) (dropWhile is_whitespace t)"

section \<open>Example runs\<close>

text \<open>What \<open>toLowerCase\<close> answers for a text of ASCII characters: the letters \<open>A\<close> to \<open>Z\<close>
  become \<open>a\<close> to \<open>z\<close>. It stands for the built-in in the examples, whose texts are ASCII.\<close>

definition lower_char :: "char \<Rightarrow> char" where
  "lower_char c =
     (let n = (of_char c :: nat) in if 65 \<le> n \<and> n \<le> 90 then char_of (n + 32) else c)"

definition ascii_lower :: "string \<Rightarrow> string" where
  "ascii_lower t = map lower_char t"

text \<open>Two channels subscribe to \<open>s1\<close>; the second has started to close.\<close>

definition two_channels :: server where
  "two_channels = run [WsConnection (Some ''s1''), WsConnection (Some ''s1''), WsClosing 1] init"

text \<open>A push channel subscribes to \<open>s1\<close>, then \<open>s1\<close> is paired.\<close>

definition pair_s1 :: input where
  "pair_s1 = ApiPair \<lparr>pairSessionId = JStr ''s1'', pairPhoneNumber = JStr ''+1 555-0100''\<rparr>
               Ready (Inr ''ABCD1234'')"

definition paired :: server where
  "paired = run [WsConnection (Some ''s1''), pair_s1] init"

text \<open>\<open>s1\<close> is paired twice.\<close>

definition paired_twice :: server where
  "paired_twice = run [pair_s1, pair_s1] init"

text \<open>\<open>s1\<close> is paired, its socket reports \<open>close\<close> without a reason, and \<open>s1\<close> is paired
  again before the reconnection timer fires.\<close>

definition dropped_update :: update where
  "dropped_update = \<lparr>connection = Some ''close'', statusCode = None, qr = None\<rparr>"

definition stale_timer :: server where
  "stale_timer = run [pair_s1, ConnectionUpdate 0 dropped_update, pair_s1] init"

text \<open>\<open>s1\<close> is paired twice; the first socket is logged out by the remote side, which
  removes the entry of \<open>s1\<close>; then the second socket, still live, reports \<open>open\<close>.\<close>

definition open_update :: update where
  "open_update = \<lparr>connection = Some ''open'', statusCode = None, qr = None\<rparr>"

definition logged_out_update :: update where
  "logged_out_update = \<lparr>connection = Some ''close'', statusCode = Some loggedOut, qr = None\<rparr>"

definition removed_s1 :: server where
  "removed_s1 = run [pair_s1, pair_s1, ConnectionUpdate 0 logged_out_update] init"

definition open_after_removal :: server where
  "open_after_removal = step (ConnectionUpdate 1 open_update) removed_s1"

text \<open>\<open>s1\<close> is paired and its socket reports \<open>open\<close>.\<close>

definition connected_s1 :: server where
  "connected_s1 = run [pair_s1, ConnectionUpdate 0 open_update] init"

text \<open>Inbound messages: a command, the same command with an acknowledgement that the
  transport rejects, a plain text in the extended body, a command whose name is followed by
  a tab, a message of the own account, and a message without text.\<close>

definition status_cmd :: inbound where
  "status_cmd = \<lparr>fromMe = False, remoteJid = ''15557654321@s.whatsapp.net'',
                  conversation = Some ''/Status now'', extendedText = None,
                  now = 1000, sendError = None\<rparr>"

definition failing_cmd :: inbound where
  "failing_cmd = status_cmd\<lparr>sendError := Some ''Connection Closed''\<rparr>"

definition hello_msg :: inbound where
  "hello_msg = \<lparr>fromMe = False, remoteJid = ''15550000002@s.whatsapp.net'',
                 conversation = Some [], extendedText = Some ''hello'',
                 now = 1001, sendError = None\<rparr>"

definition tab_cmd :: inbound where
  "tab_cmd = \<lparr>fromMe = False, remoteJid = ''15557654321@s.whatsapp.net'',
               conversation = Some [CHR ''/'', CHR ''a'', CHR 0x09, CHR ''b''],
               extendedText = None, now = 1002, sendError = None\<rparr>"

definition own_msg :: inbound where
  "own_msg = \<lparr>fromMe = True, remoteJid = ''15557654321@s.whatsapp.net'',
               conversation = Some ''/mine'', extendedText = None,
               now = 1003, sendError = None\<rparr>"

definition empty_msg :: inbound where
  "empty_msg = \<lparr>fromMe = False, remoteJid = ''15557654321@s.whatsapp.net'',
                 conversation = None, extendedText = Some [],
                 now = 1004, sendError = None\<rparr>"

text \<open>Request bodies.\<close>

definition send_hi :: send_body where
  "send_hi = \<lparr>sendSessionId = JStr ''s1'', sendTo = JStr ''15557654321'', sendText = JStr ''hi''\<rparr>"

definition pair_number_phone :: pair_body where
  "pair_number_phone = \<lparr>pairSessionId = JStr ''s1'', pairPhoneNumber = JNum ''15550100''\<rparr>"

definition pair_object_id :: pair_body where
  "pair_object_id = \<lparr>pairSessionId = JObj 0 [(''toString'', JNum ''1'')],
                       pairPhoneNumber = JStr ''+1 555-0100''\<rparr>"

section \<open>Lemmas on the broadcaster and the message loop\<close>

lemma bind_ret [simp]: "bind (ret x) f = f x"
  by (simp add: bind_def ret_def)

lemma forEach_client_eq:
  "forEach_client cs ev s =
     (Inr (), s\<lparr>outbox := (\<lambda>c. outbox s c @
        replicate (if readyState s c = OPEN then count_list cs c else 0) ev)\<rparr>)"
proof (induction cs arbitrary: s)
  case Nil
  show ?case by (simp add: ret_def cong: if_cong)
next
  case (Cons ws rest)
  show ?case
    by (auto simp: bind_def ret_def ws_send_def Cons.IH fun_eq_iff replicate_add [symmetric]
             intro!: arg_cong [where f = "\<lambda>f. s\<lparr>outbox := f\<rparr>"])
qed

lemma broadcast_eq:
  "broadcast sessionId ev s =
     (Inr (), s\<lparr>outbox := (\<lambda>c. outbox s c @ replicate (deliveries s sessionId c) ev)\<rparr>)"
  by (simp add: broadcast_def forEach_client_eq deliveries_def)

lemma deliveries_cong:
  "readyState s' = readyState s \<Longrightarrow> wsClients s' = wsClients s \<Longrightarrow>
   deliveries s' = deliveries s"
  by (simp add: deliveries_def clients_of_def fun_eq_iff)

lemma fanout_cong:
  "readyState s' = readyState s \<Longrightarrow> wsClients s' = wsClients s \<Longrightarrow>
   fanout s' = fanout s"
  using deliveries_cong [of s' s] by (simp add: fanout_def fun_eq_iff)

lemma fanout_outbox [simp]: "fanout (s\<lparr>outbox := f\<rparr>) = fanout s"
  by (rule fanout_cong) simp_all

lemma fanout_trace [simp]: "fanout (s\<lparr>trace := t\<rparr>) = fanout s"
  by (rule fanout_cong) simp_all

lemma fanout_Nil [simp]: "fanout s sessionId [] c = []"
  by (simp add: fanout_def)

lemma fanout_Cons [simp]:
  "fanout s sessionId (ev # evs) c =
     replicate (deliveries s sessionId c) ev @ fanout s sessionId evs c"
  by (simp add: fanout_def)

lemma bind_broadcast:
  "bind (broadcast sessionId ev) f s =
     f () (s\<lparr>outbox := (\<lambda>c. outbox s c @ replicate (deliveries s sessionId c) ev)\<rparr>)"
  by (simp add: bind_def broadcast_eq)

lemma bind_sendMessage:
  "bind (sendMessage h jid t outcome) f s =
     (case outcome of
        Some e \<Rightarrow> (Inl e, s\<lparr>trace := trace s @ [SendMessage h jid t]\<rparr>)
      | None \<Rightarrow> f () (s\<lparr>trace := trace s @ [SendMessage h jid t]\<rparr>))"
  by (simp add: bind_def sendMessage_def split: option.splits)

lemma for_messages_eq:
  "for_messages lower h sessionId msgs s =
     (loop_result msgs,
      s\<lparr>outbox := (\<lambda>c. outbox s c @
            fanout s sessionId (map event_of (filter eligible (reached msgs))) c),
        trace := trace s @ map (ack_of lower h) (filter is_command (reached msgs))\<rparr>)"
proof (induction msgs arbitrary: s)
  case Nil
  show ?case by (simp add: ret_def)
next
  case (Cons msg rest)
  show ?case
  proof (cases "eligible msg")
    case False
    then have "\<not> is_command msg" "ack_ok msg" by (simp_all add: is_command_def ack_ok_def)
    with False show ?thesis
      by (auto simp: eligible_def Cons.IH)
  next
    case True
    show ?thesis
    proof (cases "startsWith_slash (text_of msg)")
      case False
      with True have "\<not> is_command msg" "ack_ok msg" by (simp_all add: is_command_def ack_ok_def)
      with True False show ?thesis
        by (simp add: eligible_def [of msg] bind_broadcast Cons.IH event_of_def [of msg])
    next
      case cmd: True
      with True have c: "is_command msg" by (simp add: is_command_def)
      show ?thesis
      proof (cases "sendError msg")
        case None
        with c have "ack_ok msg" by (simp add: ack_ok_def)
        with True cmd c None show ?thesis
          by (simp add: eligible_def [of msg] bind_broadcast Cons.IH bind_sendMessage
                event_of_def [of msg] ack_of_def [of lower h msg])
      next
        case (Some e)
        with c have "\<not> ack_ok msg" by (simp add: ack_ok_def)
        with True cmd c Some show ?thesis
          by (simp add: eligible_def [of msg] bind_broadcast bind_sendMessage
                event_of_def [of msg] ack_of_def [of lower h msg])
      qed
    qed
  qed
qed

lemma bind_assoc: "bind (bind m f) g = bind m (\<lambda>x. bind (f x) g)"
  by (auto simp: bind_def fun_eq_iff split: prod.splits sum.splits)

lemma bind_modify: "bind (modify g) f s = f () (g s)"
  by (simp add: bind_def modify_def)

lemma bind_gets: "bind (gets g) f s = f (g s) s"
  by (simp add: bind_def gets_def)

lemma bind_throw: "bind (throw e) f s = (Inl e, s)"
  by (simp add: bind_def throw_def)

lemma bind_requestPairingCode:
  "bind (requestPairingCode h phone outcome) f s =
     (case outcome of
        Inl e \<Rightarrow> (Inl e, s\<lparr>trace := trace s @ [RequestPairingCode h phone]\<rparr>)
      | Inr code \<Rightarrow> f code (s\<lparr>trace := trace s @ [RequestPairingCode h phone]\<rparr>))"
  by (simp add: bind_def requestPairingCode_def split: sum.splits)

lemma bind_createSession:
  "bind (createSession sessionId pn setupErr) f s =
     (case setupErr of
        VersionError e \<Rightarrow> (Inl e, s)
      | StoreError e \<Rightarrow>
          (case js_toString sessionId of
             None \<Rightarrow> (Inl TypeError, s)
           | Some path \<Rightarrow> (Inl e, s))
      | Ready \<Rightarrow>
          (case js_toString sessionId of
             None \<Rightarrow> (Inl TypeError, s)
           | Some path \<Rightarrow> f (nextSock s) (snd (createSession sessionId pn Ready s))))"
  by (simp add: bind_def createSession_def Let_def split: option.splits startup.splits)

lemma ret_apply: "ret x s = (Inr x, s)"
  by (simp add: ret_def)

lemma modify_apply: "modify g s = (Inr (), g s)"
  by (simp add: modify_def)

lemma throw_apply: "throw e s = (Inl e, s)"
  by (simp add: throw_def)

lemmas prog_simps = bind_assoc bind_modify bind_gets bind_throw bind_broadcast bind_sendMessage
  bind_requestPairingCode ret_apply modify_apply throw_apply broadcast_eq

lemma deliveries_sessions [simp]: "deliveries (s\<lparr>sessions := m\<rparr>) = deliveries s"
  by (rule deliveries_cong) simp_all

lemma deliveries_outbox [simp]: "deliveries (s\<lparr>outbox := f\<rparr>) = deliveries s"
  by (rule deliveries_cong) simp_all

section \<open>What each handler leaves alone\<close>

lemma connection_update_frame:
  "wsClients (snd (connection_update sessionId pn u s)) = wsClients s \<and>
   nextWs (snd (connection_update sessionId pn u s)) = nextWs s \<and>
   wsSessionId (snd (connection_update sessionId pn u s)) = wsSessionId s \<and>
   readyState (snd (connection_update sessionId pn u s)) = readyState s \<and>
   socks (snd (connection_update sessionId pn u s)) = socks s \<and>
   nextSock (snd (connection_update sessionId pn u s)) = nextSock s \<and>
   trace (snd (connection_update sessionId pn u s)) = trace s"
  by (simp add: connection_update_def prog_simps split: option.splits)

lemma messages_upsert_frame:
  "wsClients (snd (messages_upsert lower h sessionId msgs type s)) = wsClients s \<and>
   nextWs (snd (messages_upsert lower h sessionId msgs type s)) = nextWs s \<and>
   wsSessionId (snd (messages_upsert lower h sessionId msgs type s)) = wsSessionId s \<and>
   readyState (snd (messages_upsert lower h sessionId msgs type s)) = readyState s \<and>
   socks (snd (messages_upsert lower h sessionId msgs type s)) = socks s \<and>
   nextSock (snd (messages_upsert lower h sessionId msgs type s)) = nextSock s \<and>
   sessions (snd (messages_upsert lower h sessionId msgs type s)) = sessions s \<and>
   timers (snd (messages_upsert lower h sessionId msgs type s)) = timers s"
  by (simp add: messages_upsert_def for_messages_eq ret_apply)

lemma createSession_frame:
  "wsClients (snd (createSession sessionId pn setupErr s)) = wsClients s \<and>
   nextWs (snd (createSession sessionId pn setupErr s)) = nextWs s \<and>
   wsSessionId (snd (createSession sessionId pn setupErr s)) = wsSessionId s \<and>
   readyState (snd (createSession sessionId pn setupErr s)) = readyState s \<and>
   outbox (snd (createSession sessionId pn setupErr s)) = outbox s \<and>
   timers (snd (createSession sessionId pn setupErr s)) = timers s"
  by (simp add: createSession_def Let_def split: option.splits startup.splits)

lemma createSession_apply:
  "createSession sessionId pn setupErr s =
     (case setupErr of
        VersionError e \<Rightarrow> (Inl e, s)
      | StoreError e \<Rightarrow>
          (case js_toString sessionId of
             None \<Rightarrow> (Inl TypeError, s)
           | Some path \<Rightarrow> (Inl e, s))
      | Ready \<Rightarrow>
          (case js_toString sessionId of
             None \<Rightarrow> (Inl TypeError, s)
           | Some path \<Rightarrow>
               (Inr (nextSock s),
                s\<lparr>socks := (socks s)(nextSock s \<mapsto>
                      \<lparr>sessionIdOf = sessionId, phoneNumberOf = pn, ended = False\<rparr>),
                  nextSock := Suc (nextSock s),
                  trace := trace s @ [MakeSocket (nextSock s) sessionId],
                  sessions := (sessions s)(sessionId \<mapsto>
                      \<lparr>sock = Some (nextSock s), phoneNumber = Some pn,
                       status = ''connecting''\<rparr>)\<rparr>)))"
  by (simp add: createSession_def Let_def split: option.splits startup.splits)

lemma createSession_None:
  "js_toString sessionId = Some path \<Longrightarrow>
   createSession sessionId pn Ready s =
     (Inr (nextSock s),
      s\<lparr>socks := (socks s)(nextSock s \<mapsto>
            \<lparr>sessionIdOf = sessionId, phoneNumberOf = pn, ended = False\<rparr>),
        nextSock := Suc (nextSock s),
        trace := trace s @ [MakeSocket (nextSock s) sessionId],
        sessions := (sessions s)(sessionId \<mapsto>
            \<lparr>sock = Some (nextSock s), phoneNumber = Some pn, status = ''connecting''\<rparr>)\<rparr>)"
  by (simp add: createSession_def Let_def)

lemma createSession_StoreError:
  "js_toString sessionId = Some path \<Longrightarrow>
   createSession sessionId pn (StoreError e) s = (Inl e, s)"
  by (simp add: createSession_def)

lemma createSession_VersionError:
  "createSession sessionId pn (VersionError e) s = (Inl e, s)"
  by (simp add: createSession_def)

lemma createSession_no_path:
  "js_toString sessionId = None \<Longrightarrow> \<forall>e. setupErr \<noteq> VersionError e \<Longrightarrow>
   createSession sessionId pn setupErr s = (Inl TypeError, s)"
  by (cases setupErr) (simp_all add: createSession_def)

lemma createSession_socks:
  "socks_wf s \<Longrightarrow> socks_wf (snd (createSession sessionId pn setupErr s))"
  by (auto simp: socks_wf_def createSession_def Let_def less_Suc_eq
        split: option.splits startup.splits)

lemma api_pair_frame:
  "wsClients (snd (api_pair req setupErr pairing s)) = wsClients s \<and>
   nextWs (snd (api_pair req setupErr pairing s)) = nextWs s \<and>
   wsSessionId (snd (api_pair req setupErr pairing s)) = wsSessionId s \<and>
   readyState (snd (api_pair req setupErr pairing s)) = readyState s \<and>
   outbox (snd (api_pair req setupErr pairing s)) = outbox s \<and>
   timers (snd (api_pair req setupErr pairing s)) = timers s"
  by (cases setupErr; cases pairing; cases "js_toString (pairSessionId req)")
     (auto simp: api_pair_def catch500_def prog_simps bind_createSession createSession_None Let_def
        split: option.splits json.splits)

lemma api_send_frame:
  "wsClients (snd (api_send req outcome s)) = wsClients s \<and>
   nextWs (snd (api_send req outcome s)) = nextWs s \<and>
   wsSessionId (snd (api_send req outcome s)) = wsSessionId s \<and>
   readyState (snd (api_send req outcome s)) = readyState s \<and>
   outbox (snd (api_send req outcome s)) = outbox s \<and>
   sessions (snd (api_send req outcome s)) = sessions s \<and>
   socks (snd (api_send req outcome s)) = socks s \<and>
   nextSock (snd (api_send req outcome s)) = nextSock s \<and>
   timers (snd (api_send req outcome s)) = timers s"
  by (auto simp: api_send_def catch500_def prog_simps Let_def
        split: option.splits sum.splits)

lemma api_disconnect_frame:
  "wsClients (snd (api_disconnect sessionId outcome s)) = wsClients s \<and>
   nextWs (snd (api_disconnect sessionId outcome s)) = nextWs s \<and>
   wsSessionId (snd (api_disconnect sessionId outcome s)) = wsSessionId s \<and>
   readyState (snd (api_disconnect sessionId outcome s)) = readyState s \<and>
   outbox (snd (api_disconnect sessionId outcome s)) = outbox s \<and>
   timers (snd (api_disconnect sessionId outcome s)) = timers s"
  by (auto simp: api_disconnect_def Let_def split: option.splits)

lemma step_wsClients:
  "(\<forall>p. i \<noteq> WsConnection p) \<Longrightarrow> (\<forall>c. i \<noteq> WsClose c) \<Longrightarrow>
   wsClients (step i s) = wsClients s \<and> nextWs (step i s) = nextWs s"
  by (cases i)
     (simp_all add: api_pair_frame api_send_frame api_disconnect_frame on_connection_update_def
        on_messages_upsert_def timer_fire_def connection_update_frame messages_upsert_frame
        createSession_frame split: option.splits)

section \<open>Subscriber lists in reachable states\<close>

lemma run_Nil [simp]: "run [] s = s"
  by (simp add: run_def)

lemma run_snoc [simp]: "run (inputs @ [i]) s = step i (run inputs s)"
  by (simp add: run_def)

lemma clients_of_step:
  "(\<forall>p. i \<noteq> WsConnection p) \<Longrightarrow> (\<forall>c. i \<noteq> WsClose c) \<Longrightarrow>
   clients_of (step i s) = clients_of s"
  using step_wsClients [of i s] by (simp add: clients_of_def fun_eq_iff)

lemma ws_connection_clients:
  "clients_of (snd (ws_connection p s)) sessionId =
     (if \<exists>i. i \<noteq> [] \<and> p = Some i \<and> sessionId = JStr i
      then clients_of s sessionId @ [nextWs s]
      else clients_of s sessionId)"
  by (cases p)
     (auto simp: ws_connection_def Let_def clients_of_def ws_send_def split: option.splits)

lemma ws_connection_nextWs: "nextWs (snd (ws_connection p s)) = Suc (nextWs s)"
  by (cases p) (auto simp: ws_connection_def Let_def ws_send_def split: option.splits)

lemma ws_close_clients:
  "clients_of (ws_close c s) sessionId =
     (if wsSessionId s c = Some sessionId then filter (\<lambda>x. x \<noteq> c) (clients_of s sessionId)
      else clients_of s sessionId)"
  by (auto simp: ws_close_def Let_def clients_of_def split: option.splits)

lemma ws_close_nextWs: "nextWs (ws_close c s) = nextWs s"
  by (auto simp: ws_close_def Let_def split: option.splits)

lemma channels_wf_step:
  assumes "channels_wf s"
  shows "channels_wf (step i s)"
proof (cases "(\<exists>p. i = WsConnection p) \<or> (\<exists>c. i = WsClose c)")
  case False
  then have "clients_of (step i s) = clients_of s" "nextWs (step i s) = nextWs s"
    using clients_of_step [of i s] step_wsClients [of i s] by auto
  with assms show ?thesis by (simp add: channels_wf_def)
next
  case True
  then show ?thesis
  proof
    assume "\<exists>p. i = WsConnection p"
    then obtain p where "i = WsConnection p" ..
    with assms show ?thesis
      unfolding channels_wf_def
      by (auto simp: ws_connection_clients ws_connection_nextWs less_Suc_eq)
  next
    assume "\<exists>c. i = WsClose c"
    then obtain c where "i = WsClose c" ..
    with assms show ?thesis
      unfolding channels_wf_def
      by (auto simp: ws_close_clients ws_close_nextWs)
  qed
qed

lemma channels_wf_init: "channels_wf init"
  by (simp add: channels_wf_def init_def clients_of_def)

lemma channels_wf_run: "channels_wf (run inputs init)"
  by (induction inputs rule: rev_induct) (simp_all add: channels_wf_init channels_wf_step)

lemma count_list_distinct: "distinct xs \<Longrightarrow> count_list xs x = (if x \<in> set xs then 1 else 0)"
  by (induction xs) auto

lemma subscriber_kept:
  "c \<in> set (clients_of s sessionId) \<Longrightarrow> i \<noteq> WsClose c \<Longrightarrow>
   c \<in> set (clients_of (step i s) sessionId)"
proof (cases "(\<exists>p. i = WsConnection p) \<or> (\<exists>c. i = WsClose c)")
  case False
  then have "clients_of (step i s) = clients_of s"
    using clients_of_step [of i s] by auto
  then show "c \<in> set (clients_of s sessionId) \<Longrightarrow> ?thesis" by simp
next
  case True
  then show "c \<in> set (clients_of s sessionId) \<Longrightarrow> i \<noteq> WsClose c \<Longrightarrow> ?thesis"
    by (auto simp: ws_connection_clients ws_close_clients split: if_splits)
qed

section \<open>Closed forms of the handlers\<close>

lemma connection_update_close:
  assumes "connection u = Some ''close''"
  shows "connection_update sessionId pn u s =
     (if statusCode u \<noteq> Some loggedOut
      then (Inr (), s\<lparr>outbox := (\<lambda>c. outbox s c @ fanout s sessionId (qr_events u) c),
                      timers := timers s @ [\<lparr>delay = 5000, timerSessionId = sessionId,
                                              timerPhoneNumber = pn\<rparr>]\<rparr>)
      else (Inr (), s\<lparr>outbox := (\<lambda>c. outbox s c @
                           fanout s sessionId (qr_events u @ [Connection ''logged_out'']) c),
                      sessions := (sessions s)(sessionId := None)\<rparr>))"
  using assms
  by (auto simp: connection_update_def prog_simps qr_events_def fanout_def
        split: option.splits)

lemma api_pair_missing:
  "\<not> truthy_json (pairSessionId req) \<or> \<not> truthy_json (pairPhoneNumber req) \<Longrightarrow>
   api_pair req setupErr pairing s = ((400, Error ''sessionId and phoneNumber required''), s)"
  by (simp add: api_pair_def catch500_def prog_simps)

lemma api_pair_not_string:
  assumes "truthy_json (pairSessionId req)" "truthy_json (pairPhoneNumber req)"
    and "\<forall>pn. pairPhoneNumber req \<noteq> JStr pn"
  shows "api_pair req setupErr pairing s = ((500, Error TypeError), s)"
  using assms
  by (cases "pairPhoneNumber req") (simp_all add: api_pair_def catch500_def prog_simps)

lemma api_pair_version_error:
  assumes "truthy_json (pairSessionId req)" "pairPhoneNumber req = JStr pn" "pn \<noteq> []"
  shows "api_pair req (VersionError e) pairing s = ((500, Error e), s)"
  using assms
  by (simp add: api_pair_def catch500_def prog_simps bind_createSession Let_def)

lemma api_pair_no_path:
  assumes "truthy_json (pairSessionId req)" "js_toString (pairSessionId req) = None"
    and "pairPhoneNumber req = JStr pn" "pn \<noteq> []" "\<forall>e. setupErr \<noteq> VersionError e"
  shows "api_pair req setupErr pairing s = ((500, Error TypeError), s)"
  using assms
  by (cases setupErr)
     (simp_all add: api_pair_def catch500_def prog_simps bind_createSession Let_def)

lemma api_pair_present:
  assumes "truthy_json (pairSessionId req)" "js_toString (pairSessionId req) = Some path"
    and "pairPhoneNumber req = JStr pn" "pn \<noteq> []"
  shows "api_pair req setupErr pairing s =
     (case setupErr of
        VersionError e \<Rightarrow> ((500, Error e), s)
      | StoreError e \<Rightarrow> ((500, Error e), s)
      | Ready \<Rightarrow>
          ((case pairing of
              Inl e \<Rightarrow> (500, Error e)
            | Inr code \<Rightarrow> (200, PairCode code
                ''Enter this code in WhatsApp > Linked Devices > Link a Device'')),
           s\<lparr>socks := (socks s)(nextSock s \<mapsto>
                 \<lparr>sessionIdOf = pairSessionId req, phoneNumberOf = filter isDigit pn,
                  ended = False\<rparr>),
             nextSock := Suc (nextSock s),
             trace := trace s @ [MakeSocket (nextSock s) (pairSessionId req), Sleep 2000,
                                 RequestPairingCode (nextSock s) (filter isDigit pn)],
             sessions := (sessions s)(pairSessionId req \<mapsto>
                 \<lparr>sock = Some (nextSock s), phoneNumber = Some (filter isDigit pn),
                  status = ''connecting''\<rparr>)\<rparr>))"
  using assms
  by (cases setupErr; cases pairing)
     (simp_all add: api_pair_def catch500_def prog_simps bind_createSession createSession_None
        Let_def)

lemma api_pair_socks: "socks_wf s \<Longrightarrow> socks_wf (snd (api_pair req setupErr pairing s))"
proof (cases "\<not> truthy_json (pairSessionId req) \<or> \<not> truthy_json (pairPhoneNumber req)")
  case True
  then show "socks_wf s \<Longrightarrow> ?thesis" by (simp add: api_pair_missing)
next
  case truthy: False
  show "socks_wf s \<Longrightarrow> ?thesis"
  proof (cases "\<exists>pn. pairPhoneNumber req = JStr pn")
    case False
    with truthy show "socks_wf s \<Longrightarrow> ?thesis" by (simp add: api_pair_not_string)
  next
    case True
    then obtain pn where pn: "pairPhoneNumber req = JStr pn" ..
    with truthy have ne: "pn \<noteq> []" by auto
    show "socks_wf s \<Longrightarrow> ?thesis"
    proof (cases "js_toString (pairSessionId req)")
      case None
      with truthy pn ne show "socks_wf s \<Longrightarrow> ?thesis"
        by (cases setupErr) (simp_all add: api_pair_no_path api_pair_version_error)
    next
      case (Some path)
      with truthy pn ne show "socks_wf s \<Longrightarrow> ?thesis"
        by (auto simp: socks_wf_def api_pair_present less_Suc_eq
              split: option.splits sum.splits startup.splits)
    qed
  qed
qed

section \<open>Handles in reachable states\<close>

lemma socks_wf_step:
  assumes "socks_wf s"
  shows "socks_wf (step i s)"
proof (cases i)
  case (ApiPair req setupErr pairing)
  with assms show ?thesis by (simp add: api_pair_socks)
next
  case (ApiStatus sessionId)
  with assms show ?thesis by simp
next
  case (ApiSend req outcome)
  with assms show ?thesis by (simp add: socks_wf_def api_send_frame)
next
  case ApiHealth
  with assms show ?thesis by simp
next
  case (CredsUpdate h)
  with assms show ?thesis by simp
next
  case (ApiDisconnect sessionId outcome)
  with assms show ?thesis
    by (auto simp: socks_wf_def api_disconnect_def Let_def split: option.splits)
next
  case (WsConnection p)
  with assms show ?thesis
    by (cases p) (auto simp: socks_wf_def ws_connection_def Let_def ws_send_def split: option.splits)
next
  case (WsClosing c)
  with assms show ?thesis by (simp add: socks_wf_def)
next
  case (WsClose c)
  with assms show ?thesis by (simp add: socks_wf_def ws_close_def Let_def split: option.splits)
next
  case (ConnectionUpdate h u)
  with assms show ?thesis
    by (auto simp: socks_wf_def on_connection_update_def connection_update_frame
          split: option.splits)
next
  case (MessagesUpsert lower h msgs type)
  with assms show ?thesis
    by (auto simp: socks_wf_def on_messages_upsert_def messages_upsert_frame split: option.splits)
next
  case (TimerFire j setupErr)
  have "socks_wf (s\<lparr>timers := take j (timers s) @ drop (Suc j) (timers s)\<rparr>)"
    using assms by (simp add: socks_wf_def)
  then have "socks_wf (snd (createSession (timerSessionId (timers s ! j))
      (timerPhoneNumber (timers s ! j)) setupErr
      (s\<lparr>timers := take j (timers s) @ drop (Suc j) (timers s)\<rparr>)))"
    by (rule createSession_socks)
  with assms TimerFire show ?thesis by (simp add: timer_fire_def)
qed

lemma socks_wf_run: "socks_wf (run inputs init)"
  by (induction inputs rule: rev_induct) (simp_all add: socks_wf_step, simp add: socks_wf_def init_def)

section \<open>The message listener as a whole\<close>

lemma reached_all: "\<forall>m \<in> set (butlast msgs). ack_ok m \<Longrightarrow> reached msgs = msgs"
  by (induction msgs) (auto split: if_splits)

lemma messages_upsert_eq:
  "messages_upsert lower h sessionId msgs type s =
     (if type \<noteq> ''notify'' then (Inr (), s)
      else (loop_result msgs,
            s\<lparr>outbox := (\<lambda>c. outbox s c @
                  fanout s sessionId (map event_of (filter eligible (reached msgs))) c),
              trace := trace s @ map (ack_of lower h) (filter is_command (reached msgs))\<rparr>))"
  by (simp add: messages_upsert_def for_messages_eq ret_apply)

lemma text_of_cases:
  "(conversation msg = Some t \<and> t \<noteq> [] \<longrightarrow> text_of msg = t) \<and>
   (\<not> truthy (conversation msg) \<and> extendedText msg = Some t \<and> t \<noteq> [] \<longrightarrow> text_of msg = t) \<and>
   (\<not> truthy (conversation msg) \<and> \<not> truthy (extendedText msg) \<longrightarrow> text_of msg = [])"
  by (cases "conversation msg"; cases "extendedText msg") (auto simp: text_of_def)

lemma command_of_token:
  "CHR '' '' \<notin> set w \<Longrightarrow>
   command_of lower (CHR ''/'' # w) = lower w \<and>
   command_of lower (CHR ''/'' # w @ CHR '' '' # rest) = lower w"
  by (simp add: command_of_def takeWhile_eq_all_conv [THEN iffD2] takeWhile_append)

lemma reached_prefix: "\<exists>dropped. msgs = reached msgs @ dropped"
  by (induction msgs) auto

lemma reached_covers:
  "\<forall>m \<in> set pre. ack_ok m \<Longrightarrow> \<exists>rest. reached (pre @ msg # post) = pre @ msg # rest"
  by (induction pre) auto

lemma api_send_refused:
  "sessions s (sendSessionId req) = None \<or>
   (\<exists>v. sessions s (sendSessionId req) = Some v \<and> status v \<noteq> ''connected'') \<Longrightarrow>
   api_send req outcome s = ((400, Error ''Session not connected''), s)"
  by (auto simp: api_send_def catch500_def prog_simps)

lemma api_send_connected:
  assumes "sessions s (sendSessionId req) = Some v" "status v = ''connected''"
  shows "api_send req outcome s =
     (case recipient (sendTo req) of
        Inl e \<Rightarrow> ((500, Error e), s)
      | Inr jid \<Rightarrow>
          (case sock v of
             None \<Rightarrow> ((500, Error TypeError), s)
           | Some h \<Rightarrow>
               ((case outcome of None \<Rightarrow> (200, Success) | Some e \<Rightarrow> (500, Error e)),
                s\<lparr>trace := trace s @ [SendMessage h jid (sendText req)]\<rparr>)))"
  using assms
  by (cases outcome)
     (simp_all add: api_send_def catch500_def prog_simps split: sum.splits option.splits)

section \<open>Session ids of handles and timers in reachable states\<close>

lemma createSession_ids: "ids_wf s \<Longrightarrow> ids_wf (snd (createSession sessionId pn setupErr s))"
  by (auto simp: ids_wf_def createSession_def Let_def split: option.splits startup.splits)

lemma ids_wf_frame:
  "socks s' = socks s \<Longrightarrow> timers s' = timers s \<Longrightarrow> ids_wf s \<Longrightarrow> ids_wf s'"
  by (simp add: ids_wf_def)

lemma api_pair_ids: "ids_wf s \<Longrightarrow> ids_wf (snd (api_pair req setupErr pairing s))"
proof (cases "\<not> truthy_json (pairSessionId req) \<or> \<not> truthy_json (pairPhoneNumber req)")
  case True
  then show "ids_wf s \<Longrightarrow> ?thesis" by (simp add: api_pair_missing)
next
  case truthy: False
  show "ids_wf s \<Longrightarrow> ?thesis"
  proof (cases "\<exists>pn. pairPhoneNumber req = JStr pn")
    case False
    with truthy show "ids_wf s \<Longrightarrow> ?thesis" by (simp add: api_pair_not_string)
  next
    case True
    then obtain pn where pn: "pairPhoneNumber req = JStr pn" ..
    with truthy have ne: "pn \<noteq> []" by auto
    show "ids_wf s \<Longrightarrow> ?thesis"
    proof (cases "js_toString (pairSessionId req)")
      case None
      with truthy pn ne show "ids_wf s \<Longrightarrow> ?thesis"
        by (cases setupErr) (simp_all add: api_pair_no_path api_pair_version_error)
    next
      case (Some path)
      with truthy pn ne show "ids_wf s \<Longrightarrow> ?thesis"
        by (auto simp: ids_wf_def api_pair_present split: option.splits sum.splits startup.splits)
    qed
  qed
qed

lemma ids_wf_step:
  assumes "ids_wf s"
  shows "ids_wf (step i s)"
proof (cases i)
  case (ApiPair req setupErr pairing)
  with assms show ?thesis by (simp add: api_pair_ids)
next
  case (ApiStatus sessionId)
  with assms show ?thesis by simp
next
  case (ApiSend req outcome)
  with assms show ?thesis by (simp add: ids_wf_def api_send_frame)
next
  case ApiHealth
  with assms show ?thesis by simp
next
  case (CredsUpdate h)
  with assms show ?thesis by simp
next
  case (ApiDisconnect sessionId outcome)
  with assms show ?thesis
    by (auto simp: ids_wf_def api_disconnect_def Let_def split: option.splits if_splits)
next
  case (WsConnection p)
  with assms show ?thesis
    by (cases p) (auto simp: ids_wf_def ws_connection_def Let_def ws_send_def split: option.splits)
next
  case (WsClosing c)
  with assms show ?thesis by (simp add: ids_wf_def)
next
  case (WsClose c)
  with assms show ?thesis by (simp add: ids_wf_def ws_close_def Let_def split: option.splits)
next
  case (ConnectionUpdate h u)
  with assms show ?thesis
    by (auto simp: ids_wf_def on_connection_update_def connection_update_def prog_simps
          split: option.splits if_splits)
next
  case (MessagesUpsert lower h msgs type)
  with assms show ?thesis
    by (auto simp: ids_wf_def on_messages_upsert_def messages_upsert_frame split: option.splits)
next
  case (TimerFire j setupErr)
  have "ids_wf (s\<lparr>timers := take j (timers s) @ drop (Suc j) (timers s)\<rparr>)"
    using assms by (auto simp: ids_wf_def dest: in_set_takeD in_set_dropD)
  then have "ids_wf (snd (createSession (timerSessionId (timers s ! j))
      (timerPhoneNumber (timers s ! j)) setupErr
      (s\<lparr>timers := take j (timers s) @ drop (Suc j) (timers s)\<rparr>)))"
    by (rule createSession_ids)
  with assms TimerFire show ?thesis by (simp add: timer_fire_def)
qed

lemma ids_wf_run: "ids_wf (run inputs init)"
  by (induction inputs rule: rev_induct) (simp_all add: ids_wf_step, simp add: ids_wf_def init_def)

section \<open>The claims\<close>

lemmas run_simps = run_def init_def ws_connection_def ws_close_def Let_def clients_of_def
  ws_send_def

lemmas eval_simps = run_simps pair_s1_def api_pair_def catch500_def prog_simps
  bind_createSession createSession_apply isDigit_def api_disconnect_def on_connection_update_def
  connection_update_def open_update_def dropped_update_def spread_connected_def timer_fire_def

lemmas msg_simps = status_cmd_def failing_cmd_def hello_msg_def tab_cmd_def own_msg_def
  empty_msg_def text_of_def ack_ok_def is_command_def eligible_def startsWith_slash_def
  event_of_def ack_of_def deliveries_def

lemma paired_facts:
  "clients_of paired (JStr ''s1'') = [0]" "readyState paired 0 = OPEN" "outbox paired 0 = []"
  "trace paired = [MakeSocket 0 (JStr ''s1''), Sleep 2000, RequestPairingCode 0 ''15550100'']"
  "timers paired = []" "nextSock paired = 1"
  "sessions paired (JStr ''s1'') =
     Some \<lparr>sock = Some 0, phoneNumber = Some ''15550100'', status = ''connecting''\<rparr>"
  "socks paired 0 =
     Some \<lparr>sessionIdOf = JStr ''s1'', phoneNumberOf = ''15550100'', ended = False\<rparr>"
  by (simp_all add: paired_def eval_simps)

lemma stale_timer_facts:
  "timers stale_timer =
     [\<lparr>delay = 5000, timerSessionId = JStr ''s1'', timerPhoneNumber = ''15550100''\<rparr>]"
  "nextSock stale_timer = 2"
  "socks stale_timer 0 =
     Some \<lparr>sessionIdOf = JStr ''s1'', phoneNumberOf = ''15550100'', ended = True\<rparr>"
  "socks stale_timer (Suc 0) =
     Some \<lparr>sessionIdOf = JStr ''s1'', phoneNumberOf = ''15550100'', ended = False\<rparr>"
  "sessions stale_timer (JStr ''s1'') =
     Some \<lparr>sock = Some (Suc 0), phoneNumber = Some ''15550100'', status = ''connecting''\<rparr>"
  by (simp_all add: stale_timer_def eval_simps)

lemma command_of_status: "command_of ascii_lower ''/Status now'' = ''status''"
  by code_simp

lemma command_of_tab:
  "command_of ascii_lower [CHR ''/'', CHR ''a'', CHR 0x09, CHR ''b''] =
     [CHR ''a'', CHR 0x09, CHR ''b'']"
  by code_simp

lemma connected_facts:
  "sessions connected_s1 (JStr ''s1'') =
     Some \<lparr>sock = Some 0, phoneNumber = Some ''15550100'', status = ''connected''\<rparr>"
  "trace connected_s1 =
     [MakeSocket 0 (JStr ''s1''), Sleep 2000, RequestPairingCode 0 ''15550100'']"
  by (simp_all add: connected_s1_def eval_simps)

lemma paired_twice_facts: "nextSock paired_twice = 2"
  by (simp add: paired_twice_def eval_simps)

lemma open_after_removal_facts:
  "sessions open_after_removal (JStr ''s1'') =
     Some \<lparr>sock = None, phoneNumber = None, status = ''connected''\<rparr>"
  by (simp add: open_after_removal_def removed_s1_def eval_simps logged_out_update_def)

subsection \<open>C1: one registered handle for a session id, but not one live handle\<close>

text \<open>
  C1, as amended. The registry is a map, so it holds at most one entry, and one handle,
  for a session id. When \<open>createSession\<close> runs for a session id and the transport setup
  succeeds, the entry of that id is replaced by one that holds the new handle with status
  \<open>connecting\<close>, the entries of other ids stay, and the new handle is live and acts on that
  id; the same holds when a reconnection timer runs it. The handle that was registered
  before is not retired: every handle that was live is still live. In a reachable state
  the new handle did not exist before. The setup includes building the storage path from
  the session id: every string has a string form, and in a reachable state so has the id
  of every pending timer.
\<close>

theorem createSession_supersedes:
  "(js_toString sessionId \<noteq> None \<longrightarrow>
      sessions (snd (createSession sessionId pn Ready s)) sessionId =
        Some \<lparr>sock = Some (nextSock s), phoneNumber = Some pn, status = ''connecting''\<rparr> \<and>
      (sessionId' \<noteq> sessionId \<longrightarrow>
         sessions (snd (createSession sessionId pn Ready s)) sessionId' = sessions s sessionId') \<and>
      (live s h \<longrightarrow> live (snd (createSession sessionId pn Ready s)) h) \<and>
      live (snd (createSession sessionId pn Ready s)) (nextSock s) \<and>
      bound_to (snd (createSession sessionId pn Ready s)) (nextSock s) sessionId) \<and>
   (i < length (timers s) \<and> js_toString (timerSessionId (timers s ! i)) \<noteq> None \<longrightarrow>
      sessions (timer_fire i Ready s) (timerSessionId (timers s ! i)) =
        Some \<lparr>sock = Some (nextSock s), phoneNumber = Some (timerPhoneNumber (timers s ! i)),
              status = ''connecting''\<rparr> \<and>
      (live s h \<longrightarrow> live (timer_fire i Ready s) h)) \<and>
   js_toString (JStr t) \<noteq> None \<and>
   (j < length (timers (run inputs init)) \<longrightarrow>
      js_toString (timerSessionId (timers (run inputs init) ! j)) \<noteq> None) \<and>
   \<not> live (run inputs init) (nextSock (run inputs init))"
proof -
  have "socks (run inputs init) (nextSock (run inputs init)) = None"
    using socks_wf_run [of inputs] by (auto simp: socks_wf_def)
  moreover have "j < length (timers (run inputs init)) \<longrightarrow>
      js_toString (timerSessionId (timers (run inputs init) ! j)) \<noteq> None"
    using ids_wf_run [of inputs] by (auto simp: ids_wf_def)
  ultimately show ?thesis
    by (auto simp: createSession_apply live_def bound_to_def timer_fire_def
          split: option.splits)
qed

theorem createSession_supersedes_witness:
  "sessions (snd (createSession (JStr ''s1'') ''15550100'' Ready paired)) (JStr ''s1'') =
     Some \<lparr>sock = Some 1, phoneNumber = Some ''15550100'', status = ''connecting''\<rparr> \<and>
   live paired 0 \<and> live (snd (createSession (JStr ''s1'') ''15550100'' Ready paired)) 0 \<and>
   live (snd (createSession (JStr ''s1'') ''15550100'' Ready paired)) 1 \<and>
   0 < length (timers stale_timer) \<and>
   sessions (timer_fire 0 Ready stale_timer) (JStr ''s1'') =
     Some \<lparr>sock = Some 2, phoneNumber = Some ''15550100'', status = ''connecting''\<rparr> \<and>
   live stale_timer 1 \<and> live (timer_fire 0 Ready stale_timer) 1"
  using createSession_supersedes
      [where sessionId = "JStr ''s1''" and pn = "''15550100''" and s = paired
         and sessionId' = "JStr ''s2''" and h = 0 and i = 0 and inputs = "[]" and j = 0
         and t = "''s1''"]
    createSession_supersedes
      [where sessionId = "JStr ''s1''" and pn = "''15550100''" and s = stale_timer
         and sessionId' = "JStr ''s2''" and h = 1 and i = 0 and j = 0 and t = "''s1''"
         and inputs = "[pair_s1, ConnectionUpdate 0 dropped_update, pair_s1]"]
  by (simp add: paired_facts stale_timer_facts live_def createSession_apply timer_fire_def)

text \<open>
  C1, as stated, fails. After two pairing requests for \<open>s1\<close> the handles 0 and 1 are both
  live and both act on \<open>s1\<close>; the registry holds handle 1.
\<close>

theorem two_live_handles_counterexample:
  "live paired_twice 0 \<and> bound_to paired_twice 0 (JStr ''s1'') \<and>
   live paired_twice 1 \<and> bound_to paired_twice 1 (JStr ''s1'') \<and>
   sessions paired_twice (JStr ''s1'') =
     Some \<lparr>sock = Some 1, phoneNumber = Some ''15550100'', status = ''connecting''\<rparr>"
  by (simp add: paired_twice_def eval_simps live_def bound_to_def)

subsection \<open>C2: the close event\<close>

text \<open>
  C2. On a \<open>close\<close> event whose status code is the logged-out code, the listener removes
  the entry of its session id, broadcasts \<open>{type:'connection', status:'logged_out'}\<close>
  (after the \<open>qr\<close> event, if the update carries one), and leaves the pending timers as
  they were. On a \<open>close\<close> event with any other status code, or none, it leaves the
  registry alone and adds exactly one timer, of 5000 ms, for its own session id and phone
  number; when that timer fires it runs \<open>createSession\<close> with these two arguments.
\<close>

theorem close_event_policy:
  assumes "connection u = Some ''close''"
  shows "(statusCode u = Some loggedOut \<longrightarrow>
            connection_update sessionId pn u s =
              (Inr (), s\<lparr>sessions := (sessions s)(sessionId := None),
                         outbox := (\<lambda>c. outbox s c @
                           fanout s sessionId (qr_events u @ [Connection ''logged_out'']) c)\<rparr>)) \<and>
         (statusCode u \<noteq> Some loggedOut \<longrightarrow>
            connection_update sessionId pn u s =
              (Inr (), s\<lparr>timers := timers s @ [\<lparr>delay = 5000, timerSessionId = sessionId,
                                                 timerPhoneNumber = pn\<rparr>],
                         outbox := (\<lambda>c. outbox s c @ fanout s sessionId (qr_events u) c)\<rparr>) \<and>
            timer_fire (length (timers s)) setupErr (snd (connection_update sessionId pn u s)) =
              snd (createSession sessionId pn setupErr
                     (s\<lparr>outbox := (\<lambda>c. outbox s c @ fanout s sessionId (qr_events u) c)\<rparr>)))"
  by (simp add: connection_update_close [OF assms] timer_fire_def)

theorem close_event_policy_witness:
  "sessions (snd (connection_update (JStr ''s1'') ''15550100''
       \<lparr>connection = Some ''close'', statusCode = Some loggedOut, qr = None\<rparr> paired)) (JStr ''s1'') = None \<and>
   timers (snd (connection_update (JStr ''s1'') ''15550100''
       \<lparr>connection = Some ''close'', statusCode = Some loggedOut, qr = None\<rparr> paired)) = [] \<and>
   outbox (snd (connection_update (JStr ''s1'') ''15550100''
       \<lparr>connection = Some ''close'', statusCode = Some loggedOut, qr = None\<rparr> paired)) 0 =
     [Connection ''logged_out''] \<and>
   timers (snd (connection_update (JStr ''s1'') ''15550100''
       \<lparr>connection = Some ''close'', statusCode = None, qr = None\<rparr> paired)) =
     [\<lparr>delay = 5000, timerSessionId = JStr ''s1'', timerPhoneNumber = ''15550100''\<rparr>] \<and>
   sessions (snd (connection_update (JStr ''s1'') ''15550100''
       \<lparr>connection = Some ''close'', statusCode = None, qr = None\<rparr> paired)) (JStr ''s1'') =
     sessions paired (JStr ''s1'')"
  using close_event_policy
      [where u = "\<lparr>connection = Some ''close'', statusCode = Some loggedOut, qr = None\<rparr>"
         and sessionId = "JStr ''s1''" and pn = "''15550100''" and s = paired and setupErr = Ready]
    close_event_policy
      [where u = "\<lparr>connection = Some ''close'', statusCode = None, qr = None\<rparr>"
         and sessionId = "JStr ''s1''" and pn = "''15550100''" and s = paired and setupErr = Ready]
  by (simp add: paired_def eval_simps loggedOut_def qr_events_def deliveries_def)

subsection \<open>C3: an open event for a removed session\<close>

text \<open>
  C3 does not hold. \<open>s1\<close> is paired twice; the first socket reports \<open>close\<close> with the
  logged-out code, which removes the entry of \<open>s1\<close>; the second socket is still live and
  reports \<open>open\<close>. The \<open>open\<close> branch then writes \<open>{ status: 'connected' }\<close>, without \<open>sock\<close>
  and \<open>phoneNumber\<close>, under \<open>s1\<close>. After that the status request answers \<open>connected\<close>, and
  a send request fails on the missing \<open>sock\<close>.
\<close>

theorem open_after_removal_resurrects:
  "sessions removed_s1 (JStr ''s1'') = None \<and> live removed_s1 1 \<and> bound_to removed_s1 1 (JStr ''s1'') \<and>
   fst (connection_update (JStr ''s1'') ''15550100'' open_update removed_s1) = Inr () \<and>
   sessions open_after_removal (JStr ''s1'') =
     Some \<lparr>sock = None, phoneNumber = None, status = ''connected''\<rparr> \<and>
   api_status ''s1'' open_after_removal = (200, Status ''connected'') \<and>
   fst (api_send send_hi None open_after_removal) = (500, Error TypeError)"
  by (simp add: open_after_removal_def removed_s1_def eval_simps api_status_def api_send_def
        send_hi_def live_def bound_to_def logged_out_update_def)

subsection \<open>C4: what a broadcast delivers\<close>

text \<open>
  C4. \<open>broadcast\<close> never throws. It hands the event to a channel once for each place the
  channel has in the session's subscriber list if the channel is open, and not at all if
  it is not; with no list or an empty list the state is unchanged. In every state the
  server can reach from its start, a channel is in a list at most once, so an open
  subscriber is handed the event exactly once and every other channel nothing.
\<close>

theorem broadcast_delivers_to_open_subscribers:
  "fst (broadcast sessionId ev s) = Inr () \<and>
   outbox (snd (broadcast sessionId ev s)) c =
     outbox s c @ replicate (if readyState s c = OPEN
                             then count_list (clients_of s sessionId) c else 0) ev \<and>
   (wsClients s sessionId = None \<or> wsClients s sessionId = Some []
      \<longrightarrow> broadcast sessionId ev s = (Inr (), s)) \<and>
   outbox (snd (broadcast sessionId ev (run inputs init))) c =
     outbox (run inputs init) c @
       (if c \<in> set (clients_of (run inputs init) sessionId) \<and> readyState (run inputs init) c = OPEN
        then [ev] else [])"
proof -
  have "distinct (clients_of (run inputs init) sessionId)"
    using channels_wf_run [of inputs] by (simp add: channels_wf_def)
  then have "count_list (clients_of (run inputs init) sessionId) c =
      (if c \<in> set (clients_of (run inputs init) sessionId) then 1 else 0)"
    by (rule count_list_distinct)
  moreover have "wsClients s sessionId = None \<or> wsClients s sessionId = Some []
      \<longrightarrow> broadcast sessionId ev s = (Inr (), s)"
    by (auto simp: broadcast_eq deliveries_def clients_of_def cong: if_cong)
  ultimately show ?thesis
    by (simp add: broadcast_eq deliveries_def)
qed

theorem broadcast_delivers_to_open_subscribers_witness:
  "broadcast (JStr ''s1'') (Connection ''connected'') init = (Inr (), init) \<and>
   outbox (snd (broadcast (JStr ''s1'') (Connection ''connected'') two_channels)) 0 =
     [Connection ''connected''] \<and>
   outbox (snd (broadcast (JStr ''s1'') (Connection ''connected'') two_channels)) 1 = []"
  using broadcast_delivers_to_open_subscribers
      [where sessionId = "JStr ''s1''" and ev = "Connection ''connected''" and s = init and c = 0
         and inputs = "[]"]
    broadcast_delivers_to_open_subscribers
      [where sessionId = "JStr ''s1''" and ev = "Connection ''connected''" and s = two_channels
         and c = 0 and inputs = "[]"]
    broadcast_delivers_to_open_subscribers
      [where sessionId = "JStr ''s1''" and ev = "Connection ''connected''" and s = two_channels
         and c = 1 and inputs = "[]"]
  by (simp add: two_channels_def run_simps)

subsection \<open>C5: which inbound messages are broadcast\<close>

text \<open>
  What the listener broadcasts for a batch, as long as no acknowledgement send for an
  earlier message of the batch has failed: in a batch of type \<open>notify\<close>, exactly one
  message event \<open>{from, text, timestamp}\<close> for each message that is not from the own
  account and has a text, in the order of the batch, and none for any other message; in
  a batch of another type, nothing. The text is the direct body if that is not empty, else
  the extended body if that is not empty, else there is no text.
\<close>

lemma upsert_broadcasts:
  assumes "\<forall>m \<in> set (butlast messages). ack_ok m"
  shows "outbox (snd (messages_upsert lower h sessionId messages type s)) c =
           outbox s c @
           (if type = ''notify''
            then fanout s sessionId
                   (map (\<lambda>m. Message (remoteJid m) (text_of m) (now m))
                      (filter (\<lambda>m. \<not> fromMe m \<and> text_of m \<noteq> []) messages)) c
            else []) \<and>
         (conversation msg = Some t \<and> t \<noteq> [] \<longrightarrow> text_of msg = t) \<and>
         (\<not> truthy (conversation msg) \<and> extendedText msg = Some t \<and> t \<noteq> []
            \<longrightarrow> text_of msg = t) \<and>
         (\<not> truthy (conversation msg) \<and> \<not> truthy (extendedText msg) \<longrightarrow> text_of msg = [])"
proof -
  have "map event_of (filter eligible messages) =
        map (\<lambda>m. Message (remoteJid m) (text_of m) (now m))
          (filter (\<lambda>m. \<not> fromMe m \<and> text_of m \<noteq> []) messages)"
    by (simp add: event_of_def eligible_def cong: filter_cong map_cong)
  then show ?thesis
    using text_of_cases [of msg t]
    by (simp add: messages_upsert_eq reached_all [OF assms])
qed

lemma upsert_broadcasts_example:
  "outbox (snd (messages_upsert ascii_lower 0 (JStr ''s1'') [status_cmd, own_msg, empty_msg, hello_msg, failing_cmd]
                  ''notify'' paired)) 0 =
     [Message ''15557654321@s.whatsapp.net'' ''/Status now'' 1000,
      Message ''15550000002@s.whatsapp.net'' ''hello'' 1001,
      Message ''15557654321@s.whatsapp.net'' ''/Status now'' 1000] \<and>
   outbox (snd (messages_upsert ascii_lower 0 (JStr ''s1'') [status_cmd, own_msg, empty_msg, hello_msg, failing_cmd]
                  ''append'' paired)) 0 = [] \<and>
   text_of hello_msg = ''hello'' \<and> text_of status_cmd = ''/Status now'' \<and> text_of empty_msg = []"
  using upsert_broadcasts
      [where messages = "[status_cmd, own_msg, empty_msg, hello_msg, failing_cmd]" and h = 0
         and sessionId = "JStr ''s1''" and type = "''notify''" and s = paired and c = 0
         and msg = hello_msg and t = "''hello''"]
    upsert_broadcasts
      [where messages = "[status_cmd, own_msg, empty_msg, hello_msg, failing_cmd]" and h = 0
         and sessionId = "JStr ''s1''" and type = "''append''" and s = paired and c = 0
         and msg = status_cmd and t = "''/Status now''"]
    upsert_broadcasts
      [where messages = "[status_cmd, own_msg, empty_msg, hello_msg, failing_cmd]" and h = 0
         and sessionId = "JStr ''s1''" and type = "''append''" and s = paired and c = 0
         and msg = empty_msg and t = "''x''"]
  by (simp add: paired_facts msg_simps fanout_def)

text \<open>
  C5 does not hold for a message that follows a command whose acknowledgement the
  transport rejects. Channel 0 is an open subscriber of \<open>s1\<close>. The batch of type \<open>notify\<close>
  holds such a command and then \<open>hello\<close>, which is not from the own account: the only event
  handed to channel 0 is that of the command, and none is broadcast for \<open>hello\<close>.
\<close>

theorem later_message_not_broadcast:
  "\<not> fromMe hello_msg \<and> text_of hello_msg = ''hello'' \<and>
   clients_of paired (JStr ''s1'') = [0] \<and> readyState paired 0 = OPEN \<and> outbox paired 0 = [] \<and>
   outbox (snd (messages_upsert ascii_lower 0 (JStr ''s1'') [failing_cmd, hello_msg] ''notify'' paired)) 0 =
     [Message ''15557654321@s.whatsapp.net'' ''/Status now'' 1000]"
  by (simp add: messages_upsert_eq paired_facts msg_simps)

subsection \<open>C6: the acknowledgement of a command\<close>

text \<open>
  C6, as amended. The listener handles the messages of a batch in their order, and every
  message before which no acknowledgement send of the batch has failed is among those it
  handles. In a batch of type \<open>notify\<close>, each handled message that is not from the own
  account and whose text begins with \<open>/\<close> causes exactly one \<open>sendMessage\<close> call, to its
  sender, with the text \<open>Command received: /\<close> followed by the command name; each handled
  message that is not from the own account and has a text causes exactly one broadcast
  message event; a message that does not begin with \<open>/\<close> causes no call. A batch of
  another type causes neither. The command name is what \<open>toLowerCase\<close> makes of the text
  between the sigil and the first space character.
\<close>

theorem command_acknowledgement:
  "\<exists>handled dropped.
     messages = handled @ dropped \<and>
     trace (snd (messages_upsert lower h sessionId messages type s)) =
       trace s @
       (if type = ''notify''
        then map (\<lambda>m. SendMessage h (JStr (remoteJid m))
                         (JStr (''Command received: /'' @ command_of lower (text_of m))))
               (filter (\<lambda>m. \<not> fromMe m \<and> text_of m \<noteq> [] \<and> startsWith_slash (text_of m))
                  handled)
        else []) \<and>
     (\<forall>c. outbox (snd (messages_upsert lower h sessionId messages type s)) c =
            outbox s c @
            (if type = ''notify''
             then fanout s sessionId
                    (map (\<lambda>m. Message (remoteJid m) (text_of m) (now m))
                       (filter (\<lambda>m. \<not> fromMe m \<and> text_of m \<noteq> []) handled)) c
             else [])) \<and>
     (\<forall>pre msg post.
        messages = pre @ msg # post \<and> (\<forall>m \<in> set pre. ack_ok m)
          \<longrightarrow> (\<exists>rest. handled = pre @ msg # rest)) \<and>
     (\<forall>w rest. CHR '' '' \<notin> set w \<longrightarrow>
        command_of lower (CHR ''/'' # w) = lower w \<and>
        command_of lower (CHR ''/'' # w @ CHR '' '' # rest) = lower w)"
proof -
  have 1: "map event_of (filter eligible (reached messages)) =
        map (\<lambda>m. Message (remoteJid m) (text_of m) (now m))
          (filter (\<lambda>m. \<not> fromMe m \<and> text_of m \<noteq> []) (reached messages))"
    by (simp add: event_of_def eligible_def cong: filter_cong map_cong)
  have 2: "map (ack_of lower h) (filter is_command (reached messages)) =
        map (\<lambda>m. SendMessage h (JStr (remoteJid m))
                     (JStr (''Command received: /'' @ command_of lower (text_of m))))
          (filter (\<lambda>m. \<not> fromMe m \<and> text_of m \<noteq> [] \<and> startsWith_slash (text_of m))
             (reached messages))"
    by (simp add: ack_of_def is_command_def eligible_def conj_assoc cong: filter_cong map_cong)
  obtain dropped where 3: "messages = reached messages @ dropped"
    using reached_prefix [of messages] ..
  have 4: "\<forall>pre msg post.
        messages = pre @ msg # post \<and> (\<forall>m \<in> set pre. ack_ok m)
          \<longrightarrow> (\<exists>rest. reached messages = pre @ msg # rest)"
    using reached_covers by blast
  have 5: "\<forall>w rest. CHR '' '' \<notin> set w \<longrightarrow>
        command_of lower (CHR ''/'' # w) = lower w \<and>
        command_of lower (CHR ''/'' # w @ CHR '' '' # rest) = lower w"
    using command_of_token by blast
  show ?thesis
    apply (rule exI [where x = "reached messages"])
    apply (rule exI [where x = dropped])
    using 3 4 5 by (simp add: messages_upsert_eq 1 2)
qed

theorem command_acknowledgement_witness:
  "trace (snd (messages_upsert ascii_lower 0 (JStr ''s1'') [status_cmd, failing_cmd, hello_msg]
                 ''notify'' paired)) =
     trace paired @
     [SendMessage 0 (JStr ''15557654321@s.whatsapp.net'') (JStr ''Command received: /status''),
      SendMessage 0 (JStr ''15557654321@s.whatsapp.net'') (JStr ''Command received: /status'')] \<and>
   command_of ascii_lower ''/StaTus now'' = ascii_lower ''StaTus''"
proof -
  obtain handled dropped where
    a: "[status_cmd, failing_cmd, hello_msg] = handled @ dropped" and
    b: "trace (snd (messages_upsert ascii_lower 0 (JStr ''s1'')
                      [status_cmd, failing_cmd, hello_msg] ''notify'' paired)) =
        trace paired @
        map (\<lambda>m. SendMessage 0 (JStr (remoteJid m))
                     (JStr (''Command received: /'' @ command_of ascii_lower (text_of m))))
          (filter (\<lambda>m. \<not> fromMe m \<and> text_of m \<noteq> [] \<and> startsWith_slash (text_of m))
             handled)" and
    d: "\<forall>pre msg post.
          [status_cmd, failing_cmd, hello_msg] = pre @ msg # post \<and> (\<forall>m \<in> set pre. ack_ok m)
            \<longrightarrow> (\<exists>rest. handled = pre @ msg # rest)" and
    e: "\<forall>w rest. CHR '' '' \<notin> set w \<longrightarrow>
          command_of ascii_lower (CHR ''/'' # w) = ascii_lower w \<and>
          command_of ascii_lower (CHR ''/'' # w @ CHR '' '' # rest) = ascii_lower w"
    using command_acknowledgement
      [where messages = "[status_cmd, failing_cmd, hello_msg]" and lower = ascii_lower
         and h = 0 and sessionId = "JStr ''s1''" and type = "''notify''" and s = paired]
    by auto
  have "ack_ok status_cmd" by (simp add: msg_simps)
  with d [rule_format, of "[status_cmd]" failing_cmd "[hello_msg]"]
  obtain rest where r: "handled = [status_cmd, failing_cmd] @ rest" by auto
  with a have "rest = [] \<or> rest = [hello_msg]"
    by (cases rest) auto
  with r b have t: "trace (snd (messages_upsert ascii_lower 0 (JStr ''s1'')
                      [status_cmd, failing_cmd, hello_msg] ''notify'' paired)) =
     trace paired @
     [SendMessage 0 (JStr ''15557654321@s.whatsapp.net'') (JStr ''Command received: /status''),
      SendMessage 0 (JStr ''15557654321@s.whatsapp.net'') (JStr ''Command received: /status'')]"
    by (auto simp: msg_simps command_of_status)
  from e [rule_format, of "''StaTus''" "''now''"]
  have "command_of ascii_lower ''/StaTus now'' = ascii_lower ''StaTus''" by simp
  with t show ?thesis by simp
qed

text \<open>
  C6, as stated, fails. A command in a batch of type \<open>append\<close> is not acknowledged and
  not broadcast. A command that follows one whose acknowledgement the transport rejects
  is not acknowledged. A command whose name is followed by a tab is acknowledged with
  everything up to the first space, here \<open>a\<close>, the tab and \<open>b\<close>, where the first
  whitespace-delimited token is \<open>a\<close>.
\<close>

theorem command_acknowledgement_counterexample:
  "\<not> fromMe status_cmd \<and> startsWith_slash (text_of status_cmd) \<and>
   messages_upsert ascii_lower 0 (JStr ''s1'') [status_cmd] ''append'' paired = (Inr (), paired) \<and>
   trace (snd (messages_upsert ascii_lower 0 (JStr ''s1'') [failing_cmd, status_cmd] ''notify''
                 paired)) =
     trace paired @
     [SendMessage 0 (JStr ''15557654321@s.whatsapp.net'')
        (JStr ''Command received: /status'')] \<and>
   \<not> fromMe tab_cmd \<and> startsWith_slash (text_of tab_cmd) \<and>
   spec_first_token (drop 1 (text_of tab_cmd)) = ''a'' \<and>
   trace (snd (messages_upsert ascii_lower 0 (JStr ''s1'') [tab_cmd] ''notify'' paired)) =
     trace paired @
     [SendMessage 0 (JStr ''15557654321@s.whatsapp.net'')
        (JStr (''Command received: /'' @ [CHR ''a'', CHR 0x09, CHR ''b'']))]"
  by (simp add: messages_upsert_eq msg_simps command_of_tab command_of_status
        spec_first_token_def is_whitespace_def)

subsection \<open>C7: the pairing request\<close>

text \<open>
  C7, as amended. When \<open>sessionId\<close> or \<open>phoneNumber\<close> is missing or falsy, \<open>POST /api/pair\<close>
  answers 400 and the state is unchanged. When both are truthy and \<open>phoneNumber\<close> is not a
  string, the answer is 500 with the message of a \<open>TypeError\<close> and the state is unchanged.
  Otherwise the phone number is reduced to its digits and the session is set up: if
  fetching the version fails with \<open>e\<close>, the answer is 500 with \<open>e\<close>; else if \<open>sessionId\<close>
  has no string form for the storage path, it is 500 with the message of a \<open>TypeError\<close>;
  else if opening the storage or making the socket fails with \<open>e\<close>, it is 500 with \<open>e\<close>;
  in the three cases the state is unchanged. Else a new handle is made and written into
  the registry under \<open>sessionId\<close> with the digits and status \<open>connecting\<close>, over any entry
  of that id, the handler waits 2000 ms and asks the new handle once for a pairing code
  for the digits; the answer is the code, or 500 with the error of that one request.
  Every string has a string form.
\<close>

theorem pairing_flow:
  "(\<not> truthy_json (pairSessionId req) \<or> \<not> truthy_json (pairPhoneNumber req) \<longrightarrow>
      api_pair req setupErr pairing s =
        ((400, Error ''sessionId and phoneNumber required''), s)) \<and>
   (truthy_json (pairSessionId req) \<and> truthy_json (pairPhoneNumber req) \<and>
    (\<forall>t. pairPhoneNumber req \<noteq> JStr t) \<longrightarrow>
      api_pair req setupErr pairing s = ((500, Error TypeError), s)) \<and>
   (truthy_json (pairSessionId req) \<and> pairPhoneNumber req = JStr pn \<and> pn \<noteq> [] \<longrightarrow>
      api_pair req (VersionError e) pairing s = ((500, Error e), s)) \<and>
   (truthy_json (pairSessionId req) \<and> pairPhoneNumber req = JStr pn \<and> pn \<noteq> [] \<and>
    js_toString (pairSessionId req) = None \<longrightarrow>
      api_pair req (StoreError e) pairing s = ((500, Error TypeError), s) \<and>
      api_pair req Ready pairing s = ((500, Error TypeError), s)) \<and>
   (truthy_json (pairSessionId req) \<and> pairPhoneNumber req = JStr pn \<and> pn \<noteq> [] \<and>
    js_toString (pairSessionId req) \<noteq> None \<longrightarrow>
      api_pair req (StoreError e) pairing s = ((500, Error e), s) \<and>
      fst (api_pair req Ready (Inl e) s) = (500, Error e) \<and>
      fst (api_pair req Ready (Inr code) s) =
        (200, PairCode code ''Enter this code in WhatsApp > Linked Devices > Link a Device'') \<and>
      snd (api_pair req Ready pairing s) =
        s\<lparr>socks := (socks s)(nextSock s \<mapsto>
              \<lparr>sessionIdOf = pairSessionId req,
               phoneNumberOf = filter (\<lambda>c. c \<in> set ''0123456789'') pn, ended = False\<rparr>),
          nextSock := Suc (nextSock s),
          trace := trace s @
            [MakeSocket (nextSock s) (pairSessionId req), Sleep 2000,
             RequestPairingCode (nextSock s) (filter (\<lambda>c. c \<in> set ''0123456789'') pn)],
          sessions := (sessions s)(pairSessionId req \<mapsto>
              \<lparr>sock = Some (nextSock s),
               phoneNumber = Some (filter (\<lambda>c. c \<in> set ''0123456789'') pn),
               status = ''connecting''\<rparr>)\<rparr>) \<and>
   js_toString (JStr t) \<noteq> None"
proof -
  have "filter isDigit pn = filter (\<lambda>c. c \<in> set ''0123456789'') pn"
    by (simp add: isDigit_def cong: filter_cong)
  then show ?thesis
    by (auto simp: api_pair_missing api_pair_not_string api_pair_no_path api_pair_present
          api_pair_version_error)
qed

theorem pairing_flow_witness:
  "api_pair \<lparr>pairSessionId = JStr ''s1'', pairPhoneNumber = JUndefined\<rparr> Ready (Inr ''ABCD1234'')
     init = ((400, Error ''sessionId and phoneNumber required''), init) \<and>
   api_pair pair_number_phone Ready (Inr ''ABCD1234'') init = ((500, Error TypeError), init) \<and>
   api_pair pair_object_id Ready (Inr ''ABCD1234'') init = ((500, Error TypeError), init) \<and>
   api_pair pair_object_id (StoreError ''ENOSPC'') (Inr ''ABCD1234'') init =
     ((500, Error TypeError), init) \<and>
   api_pair pair_object_id (VersionError ''ETIMEDOUT'') (Inr ''ABCD1234'') init =
     ((500, Error ''ETIMEDOUT''), init) \<and>
   fst (api_pair \<lparr>pairSessionId = JStr ''s1'', pairPhoneNumber = JStr ''+1 555-0100''\<rparr>
          Ready (Inr ''ABCD1234'') init) =
     (200, PairCode ''ABCD1234'' ''Enter this code in WhatsApp > Linked Devices > Link a Device'') \<and>
   trace (snd (api_pair \<lparr>pairSessionId = JStr ''s1'', pairPhoneNumber = JStr ''+1 555-0100''\<rparr>
          Ready (Inr ''ABCD1234'') init)) =
     [MakeSocket 0 (JStr ''s1''), Sleep 2000, RequestPairingCode 0 ''15550100''] \<and>
   sessions (snd (api_pair \<lparr>pairSessionId = JStr ''s1'', pairPhoneNumber = JStr ''+1 555-0100''\<rparr>
          Ready (Inr ''ABCD1234'') paired_twice)) (JStr ''s1'') =
     Some \<lparr>sock = Some 2, phoneNumber = Some ''15550100'', status = ''connecting''\<rparr> \<and>
   api_pair \<lparr>pairSessionId = JStr ''s1'', pairPhoneNumber = JStr ''+1 555-0100''\<rparr>
          (StoreError ''ENOSPC'') (Inr ''ABCD1234'') init = ((500, Error ''ENOSPC''), init) \<and>
   fst (api_pair \<lparr>pairSessionId = JStr ''s1'', pairPhoneNumber = JStr ''+1 555-0100''\<rparr>
          Ready (Inl ''Connection Closed'') init) = (500, Error ''Connection Closed'')"
  using pairing_flow [where req = "\<lparr>pairSessionId = JStr ''s1'', pairPhoneNumber = JUndefined\<rparr>"
          and setupErr = Ready and pairing = "Inr ''ABCD1234''" and s = init
          and pn = "''x''" and e = "''e''" and code = "''c''" and t = "''s1''"]
    pairing_flow [where req = pair_number_phone
          and setupErr = Ready and pairing = "Inr ''ABCD1234''" and s = init
          and pn = "''x''" and e = "''e''" and code = "''c''" and t = "''s1''"]
    pairing_flow [where req = pair_object_id
          and setupErr = Ready and pairing = "Inr ''ABCD1234''" and s = init
          and pn = "''+1 555-0100''" and e = "''ENOSPC''" and code = "''c''" and t = "''s1''"]
    pairing_flow [where req = pair_object_id
          and setupErr = Ready and pairing = "Inr ''ABCD1234''" and s = init
          and pn = "''+1 555-0100''" and e = "''ETIMEDOUT''" and code = "''c''" and t = "''s1''"]
    pairing_flow [where req = "\<lparr>pairSessionId = JStr ''s1'',
                                pairPhoneNumber = JStr ''+1 555-0100''\<rparr>"
          and setupErr = Ready and pairing = "Inr ''ABCD1234''" and s = init
          and pn = "''+1 555-0100''" and e = "''ENOSPC''" and code = "''ABCD1234''"
          and t = "''s1''"]
    pairing_flow [where req = "\<lparr>pairSessionId = JStr ''s1'',
                                pairPhoneNumber = JStr ''+1 555-0100''\<rparr>"
          and setupErr = Ready and pairing = "Inr ''ABCD1234''" and s = paired_twice
          and pn = "''+1 555-0100''" and e = "''ENOSPC''" and code = "''ABCD1234''"
          and t = "''s1''"]
    pairing_flow [where req = "\<lparr>pairSessionId = JStr ''s1'',
                                pairPhoneNumber = JStr ''+1 555-0100''\<rparr>"
          and setupErr = Ready and pairing = "Inr ''ABCD1234''" and s = init
          and pn = "''+1 555-0100''" and e = "''Connection Closed''" and code = "''ABCD1234''"
          and t = "''s1''"]
  by (simp add: init_def pair_number_phone_def pair_object_id_def paired_twice_facts)

text \<open>
  C7, as stated, fails. With \<open>phoneNumber\<close> the number 15550100, present and truthy, the
  handler throws at \<open>phoneNumber.replace\<close> and answers 500; no session is made and no
  pairing code is asked for. The same happens for a \<open>sessionId\<close> that is an object with a
  key \<open>toString\<close>, which has no string form.
\<close>

theorem pairing_non_string_counterexample:
  "truthy_json (pairSessionId pair_number_phone) \<and>
   truthy_json (pairPhoneNumber pair_number_phone) \<and>
   api_pair pair_number_phone Ready (Inr ''ABCD1234'') init = ((500, Error TypeError), init) \<and>
   truthy_json (pairSessionId pair_object_id) \<and>
   pairPhoneNumber pair_object_id = JStr ''+1 555-0100'' \<and>
   api_pair pair_object_id Ready (Inr ''ABCD1234'') init = ((500, Error TypeError), init) \<and>
   sessions init (JStr ''s1'') = None \<and> trace init = []"
  by (simp add: pair_number_phone_def pair_object_id_def eval_simps)

subsection \<open>C8: the send request\<close>

text \<open>
  C8, as amended. \<open>POST /api/send\<close> answers 400 and leaves the state unchanged when the
  session is not in the registry or its status is not \<open>connected\<close>. When the session is
  connected: if \<open>to\<close> is absent, \<open>null\<close>, a boolean, a number or an object, the answer is
  500 with the message of a \<open>TypeError\<close> and the transport receives no call. If \<open>to\<close> is a
  string and the entry holds a handle, that handle receives exactly one \<open>sendMessage\<close>
  call, to \<open>to\<close> itself if it contains \<open>@\<close> and else to \<open>to\<close> followed by \<open>@s.whatsapp.net\<close>,
  with the given text; the answer is \<open>{success:true}\<close> if the call succeeds and 500 with
  the error's message if it fails. If \<open>to\<close> is an array, the test is whether \<open>'@'\<close> is one
  of its elements: the one call goes to the array itself if it is, and else to the
  array's string form followed by \<open>@s.whatsapp.net\<close>, or the answer is 500 with no call
  when the array has no string form.
\<close>

theorem send_flow:
  "(sessions s (sendSessionId req) = None \<or>
    (\<exists>v. sessions s (sendSessionId req) = Some v \<and> status v \<noteq> ''connected'') \<longrightarrow>
      api_send req outcome s = ((400, Error ''Session not connected''), s)) \<and>
   (sessions s (sendSessionId req) = Some v \<and> status v = ''connected'' \<longrightarrow>
      (sock v = Some h \<and> sendTo req = JStr t \<longrightarrow>
         api_send req outcome s =
           ((case outcome of None \<Rightarrow> (200, Success) | Some e \<Rightarrow> (500, Error e)),
            s\<lparr>trace := trace s @
                 [SendMessage h
                    (JStr (if CHR ''@'' \<in> set t then t else t @ ''@s.whatsapp.net''))
                    (sendText req)]\<rparr>)) \<and>
      (sendTo req = JUndefined \<or> sendTo req = JNull \<or> (\<exists>b. sendTo req = JBool b) \<or>
       (\<exists>n. sendTo req = JNum n) \<or> (\<exists>a kvs. sendTo req = JObj a kvs) \<longrightarrow>
         api_send req outcome s = ((500, Error TypeError), s)) \<and>
      (sock v = Some h \<and> sendTo req = JArr a xs \<and> JStr ''@'' \<in> set xs \<longrightarrow>
         api_send req outcome s =
           ((case outcome of None \<Rightarrow> (200, Success) | Some e \<Rightarrow> (500, Error e)),
            s\<lparr>trace := trace s @ [SendMessage h (JArr a xs) (sendText req)]\<rparr>)) \<and>
      (sock v = Some h \<and> sendTo req = JArr a xs \<and> JStr ''@'' \<notin> set xs \<and>
       js_toString (JArr a xs) = Some t \<longrightarrow>
         api_send req outcome s =
           ((case outcome of None \<Rightarrow> (200, Success) | Some e \<Rightarrow> (500, Error e)),
            s\<lparr>trace := trace s @
                 [SendMessage h (JStr (t @ ''@s.whatsapp.net'')) (sendText req)]\<rparr>)) \<and>
      (sendTo req = JArr a xs \<and> JStr ''@'' \<notin> set xs \<and> js_toString (JArr a xs) = None \<longrightarrow>
         api_send req outcome s = ((500, Error TypeError), s)))"
proof -
  have refused: "sessions s (sendSessionId req) = None \<or>
    (\<exists>v. sessions s (sendSessionId req) = Some v \<and> status v \<noteq> ''connected'') \<longrightarrow>
      api_send req outcome s = ((400, Error ''Session not connected''), s)"
    using api_send_refused [where req = req and s = s and outcome = outcome] by blast
  have connected: "sessions s (sendSessionId req) = Some v \<and> status v = ''connected'' \<longrightarrow>
      api_send req outcome s =
        (case recipient (sendTo req) of
           Inl e \<Rightarrow> ((500, Error e), s)
         | Inr jid \<Rightarrow>
             (case sock v of
                None \<Rightarrow> ((500, Error TypeError), s)
              | Some h \<Rightarrow>
                  ((case outcome of None \<Rightarrow> (200, Success) | Some e \<Rightarrow> (500, Error e)),
                   s\<lparr>trace := trace s @ [SendMessage h jid (sendText req)]\<rparr>)))"
    using api_send_connected [where req = req and s = s and outcome = outcome and v = v]
    by blast
  show ?thesis
  proof (intro conjI impI)
    assume "sessions s (sendSessionId req) = None \<or>
      (\<exists>v. sessions s (sendSessionId req) = Some v \<and> status v \<noteq> ''connected'')"
    with refused show "api_send req outcome s = ((400, Error ''Session not connected''), s)"
      by blast
  next
    assume "sessions s (sendSessionId req) = Some v \<and> status v = ''connected''"
      and "sock v = Some h \<and> sendTo req = JStr t"
    with connected show "api_send req outcome s =
           ((case outcome of None \<Rightarrow> (200, Success) | Some e \<Rightarrow> (500, Error e)),
            s\<lparr>trace := trace s @
                 [SendMessage h
                    (JStr (if CHR ''@'' \<in> set t then t else t @ ''@s.whatsapp.net''))
                    (sendText req)]\<rparr>)"
      by (simp add: jid_of_def del: set_simps)
  next
    assume "sessions s (sendSessionId req) = Some v \<and> status v = ''connected''"
      and "sendTo req = JUndefined \<or> sendTo req = JNull \<or> (\<exists>b. sendTo req = JBool b) \<or>
       (\<exists>n. sendTo req = JNum n) \<or> (\<exists>a kvs. sendTo req = JObj a kvs)"
    with connected show "api_send req outcome s = ((500, Error TypeError), s)"
      by auto
  next
    assume "sessions s (sendSessionId req) = Some v \<and> status v = ''connected''"
      and "sock v = Some h \<and> sendTo req = JArr a xs \<and> JStr ''@'' \<in> set xs"
    with connected show "api_send req outcome s =
           ((case outcome of None \<Rightarrow> (200, Success) | Some e \<Rightarrow> (500, Error e)),
            s\<lparr>trace := trace s @ [SendMessage h (JArr a xs) (sendText req)]\<rparr>)"
      by simp
  next
    assume "sessions s (sendSessionId req) = Some v \<and> status v = ''connected''"
      and "sock v = Some h \<and> sendTo req = JArr a xs \<and> JStr ''@'' \<notin> set xs \<and>
       js_toString (JArr a xs) = Some t"
    with connected show "api_send req outcome s =
           ((case outcome of None \<Rightarrow> (200, Success) | Some e \<Rightarrow> (500, Error e)),
            s\<lparr>trace := trace s @
                 [SendMessage h (JStr (t @ ''@s.whatsapp.net'')) (sendText req)]\<rparr>)"
      by (simp del: js_toString.simps)
  next
    assume "sessions s (sendSessionId req) = Some v \<and> status v = ''connected''"
      and "sendTo req = JArr a xs \<and> JStr ''@'' \<notin> set xs \<and> js_toString (JArr a xs) = None"
    with connected show "api_send req outcome s = ((500, Error TypeError), s)"
      by (simp del: js_toString.simps)
  qed
qed

theorem send_flow_witness:
  "api_send send_hi None paired = ((400, Error ''Session not connected''), paired) \<and>
   api_send send_hi None init = ((400, Error ''Session not connected''), init) \<and>
   api_send send_hi None connected_s1 =
     ((200, Success),
      connected_s1\<lparr>trace := trace connected_s1 @
        [SendMessage 0 (JStr ''15557654321@s.whatsapp.net'') (JStr ''hi'')]\<rparr>) \<and>
   api_send (send_hi\<lparr>sendTo := JStr ''12345-678@g.us''\<rparr>) None connected_s1 =
     ((200, Success),
      connected_s1\<lparr>trace := trace connected_s1 @
        [SendMessage 0 (JStr ''12345-678@g.us'') (JStr ''hi'')]\<rparr>) \<and>
   api_send (send_hi\<lparr>sendTo := JNum ''15557654321''\<rparr>) None connected_s1 =
     ((500, Error TypeError), connected_s1) \<and>
   api_send (send_hi\<lparr>sendTo := JArr 7 [JStr ''a'', JStr ''@'']\<rparr>) None connected_s1 =
     ((200, Success),
      connected_s1\<lparr>trace := trace connected_s1 @
        [SendMessage 0 (JArr 7 [JStr ''a'', JStr ''@'']) (JStr ''hi'')]\<rparr>) \<and>
   api_send (send_hi\<lparr>sendTo := JArr 7 [JNum ''1'', JNull, JStr ''b'']\<rparr>) None connected_s1 =
     ((200, Success),
      connected_s1\<lparr>trace := trace connected_s1 @
        [SendMessage 0 (JStr ''1,,b@s.whatsapp.net'') (JStr ''hi'')]\<rparr>) \<and>
   api_send (send_hi\<lparr>sendTo := JArr 7 [JObj 8 [(''toString'', JNull)]]\<rparr>) None connected_s1 =
     ((500, Error TypeError), connected_s1)"
  using send_flow [where req = send_hi and s = paired and outcome = None
          and v = "\<lparr>sock = Some 0, phoneNumber = Some ''15550100'', status = ''connecting''\<rparr>"
          and h = 0 and t = "''15557654321''" and a = 7 and xs = "[]"]
    send_flow [where req = send_hi and s = init and outcome = None
          and v = "\<lparr>sock = Some 0, phoneNumber = Some ''15550100'', status = ''connecting''\<rparr>"
          and h = 0 and t = "''15557654321''" and a = 7 and xs = "[]"]
    send_flow [where req = send_hi and s = connected_s1 and outcome = None
          and v = "\<lparr>sock = Some 0, phoneNumber = Some ''15550100'', status = ''connected''\<rparr>"
          and h = 0 and t = "''15557654321''" and a = 7 and xs = "[]"]
    send_flow [where req = "send_hi\<lparr>sendTo := JStr ''12345-678@g.us''\<rparr>" and s = connected_s1
          and outcome = None
          and v = "\<lparr>sock = Some 0, phoneNumber = Some ''15550100'', status = ''connected''\<rparr>"
          and h = 0 and t = "''12345-678@g.us''" and a = 7 and xs = "[]"]
    send_flow [where req = "send_hi\<lparr>sendTo := JNum ''15557654321''\<rparr>" and s = connected_s1
          and outcome = None
          and v = "\<lparr>sock = Some 0, phoneNumber = Some ''15550100'', status = ''connected''\<rparr>"
          and h = 0 and t = "''x''" and a = 7 and xs = "[]"]
    send_flow [where req = "send_hi\<lparr>sendTo := JArr 7 [JStr ''a'', JStr ''@'']\<rparr>"
          and s = connected_s1 and outcome = None
          and v = "\<lparr>sock = Some 0, phoneNumber = Some ''15550100'', status = ''connected''\<rparr>"
          and h = 0 and t = "''x''" and a = 7 and xs = "[JStr ''a'', JStr ''@'']"]
    send_flow [where req = "send_hi\<lparr>sendTo := JArr 7 [JNum ''1'', JNull, JStr ''b'']\<rparr>"
          and s = connected_s1 and outcome = None
          and v = "\<lparr>sock = Some 0, phoneNumber = Some ''15550100'', status = ''connected''\<rparr>"
          and h = 0 and t = "''1,,b''" and a = 7 and xs = "[JNum ''1'', JNull, JStr ''b'']"]
    send_flow [where req = "send_hi\<lparr>sendTo := JArr 7 [JObj 8 [(''toString'', JNull)]]\<rparr>"
          and s = connected_s1 and outcome = None
          and v = "\<lparr>sock = Some 0, phoneNumber = Some ''15550100'', status = ''connected''\<rparr>"
          and h = 0 and t = "''x''" and a = 7 and xs = "[JObj 8 [(''toString'', JNull)]]"]
  by (simp add: send_hi_def paired_facts connected_facts init_def)

text \<open>
  C8, as stated, fails. \<open>s1\<close> is connected and the transport rejects the send: the answer
  is 500, not \<open>{success:true}\<close>. Without a \<open>to\<close>, or with the number 15557654321 as \<open>to\<close>,
  the answer is 500 and the transport receives no call. For the entry without \<open>sock\<close> that
  the \<open>open\<close> event of C3 leaves behind, the answer is 500 and there is no call either.
\<close>

theorem send_failure_counterexample:
  "sessions connected_s1 (JStr ''s1'') =
     Some \<lparr>sock = Some 0, phoneNumber = Some ''15550100'', status = ''connected''\<rparr> \<and>
   api_send send_hi (Some ''Connection Closed'') connected_s1 =
     ((500, Error ''Connection Closed''),
      connected_s1\<lparr>trace := trace connected_s1 @
        [SendMessage 0 (JStr ''15557654321@s.whatsapp.net'') (JStr ''hi'')]\<rparr>) \<and>
   api_send (send_hi\<lparr>sendTo := JUndefined\<rparr>) None connected_s1 =
     ((500, Error TypeError), connected_s1) \<and>
   api_send (send_hi\<lparr>sendTo := JNum ''15557654321''\<rparr>) None connected_s1 =
     ((500, Error TypeError), connected_s1) \<and>
   sessions open_after_removal (JStr ''s1'') =
     Some \<lparr>sock = None, phoneNumber = None, status = ''connected''\<rparr> \<and>
   api_send send_hi None open_after_removal = ((500, Error TypeError), open_after_removal)"
  by (simp add: connected_facts open_after_removal_facts api_send_def catch500_def prog_simps
        send_hi_def jid_of_def)

subsection \<open>C9: a failed acknowledgement\<close>

text \<open>
  C9 does not hold. Channel 0 is an open subscriber of \<open>s1\<close>. The batch holds a command
  whose acknowledgement the transport rejects, a second command and a text. The listener
  ends with the transport's error: the first command is broadcast and its
  acknowledgement attempted once, and the two later messages are neither broadcast nor
  acknowledged.
\<close>

theorem failed_acknowledgement_aborts_batch:
  "messages_upsert ascii_lower 0 (JStr ''s1'') [failing_cmd, status_cmd, hello_msg] ''notify'' paired =
     (Inl ''Connection Closed'',
      paired\<lparr>outbox := (outbox paired)
                 (0 := [Message ''15557654321@s.whatsapp.net'' ''/Status now'' 1000]),
             trace := trace paired @
               [SendMessage 0 (JStr ''15557654321@s.whatsapp.net'')
                  (JStr ''Command received: /status'')]\<rparr>)"
  by (simp add: messages_upsert_eq paired_facts msg_simps fanout_def command_of_status
        fun_eq_iff)

subsection \<open>C10: what a broadcast leaves alone, and who removes a channel\<close>

text \<open>
  C10. \<open>broadcast\<close> leaves the \<open>sessions\<close> map and the \<open>wsClients\<close> map as they were; a
  subscriber that is not open stays in its list and is handed nothing. No step of the
  server other than the \<open>close\<close> event of a channel itself takes that channel out of a
  subscriber list, and that event filters the one channel out of the list of its own
  session, keeping the others in their order.
\<close>

theorem broadcast_frame_and_channel_removal:
  "sessions (snd (broadcast sessionId ev s)) = sessions s \<and>
   wsClients (snd (broadcast sessionId ev s)) = wsClients s \<and>
   (c \<in> set (clients_of s sessionId) \<and> readyState s c \<noteq> OPEN
      \<longrightarrow> c \<in> set (clients_of (snd (broadcast sessionId ev s)) sessionId) \<and>
          outbox (snd (broadcast sessionId ev s)) c = outbox s c) \<and>
   (c \<in> set (clients_of s sessionId') \<and> i \<noteq> WsClose c
      \<longrightarrow> c \<in> set (clients_of (step i s) sessionId')) \<and>
   clients_of (ws_close c s) sessionId' =
     (if wsSessionId s c = Some sessionId'
      then filter (\<lambda>x. x \<noteq> c) (clients_of s sessionId')
      else clients_of s sessionId')"
proof -
  have "wsClients (snd (broadcast sessionId ev s)) = wsClients s"
    by (simp add: broadcast_eq)
  then have "clients_of (snd (broadcast sessionId ev s)) = clients_of s"
    by (simp add: clients_of_def fun_eq_iff)
  then show ?thesis
    using subscriber_kept [of c s sessionId' i]
    by (simp add: broadcast_eq ws_close_clients deliveries_def)
qed

theorem broadcast_frame_and_channel_removal_witness:
  "1 \<in> set (clients_of two_channels (JStr ''s1'')) \<and> readyState two_channels 1 \<noteq> OPEN \<and>
   1 \<in> set (clients_of (snd (broadcast (JStr ''s1'') (Qr ''x'') two_channels)) (JStr ''s1'')) \<and>
   outbox (snd (broadcast (JStr ''s1'') (Qr ''x'') two_channels)) 1 = outbox two_channels 1 \<and>
   WsClose 0 \<noteq> WsClose 1 \<and>
   1 \<in> set (clients_of (step (WsClose 0) two_channels) (JStr ''s1'')) \<and>
   clients_of (ws_close 0 two_channels) (JStr ''s1'') = [1]"
  using broadcast_frame_and_channel_removal
      [where sessionId = "JStr ''s1''" and ev = "Qr ''x''" and s = two_channels and c = 1
         and sessionId' = "JStr ''s1''" and i = "WsClose 0"]
    broadcast_frame_and_channel_removal
      [where sessionId = "JStr ''s1''" and ev = "Qr ''x''" and s = two_channels and c = 0
         and sessionId' = "JStr ''s1''" and i = "WsClose 0"]
  by (simp add: two_channels_def run_simps)

end
